theory Spec2Isabelle
  imports Complex_Main "HOL-Library.Word"
begin

text \<open>
  A model of the session handoff core of the shopping assistant: the token service
  (\<open>qrService.js\<close>), the intent extractor (\<open>contextEngine.js\<close>), the recommender
  (\<open>recommendationEngine.js\<close>), and the socket and route handlers that drive the Session
  documents and the connection registry (\<open>socketManager.js\<close>, \<open>routes/chat.js\<close>,
  \<open>routes/qr.js\<close>).

  The handlers are functions from the state of the server to the events they emit and the
  new state. What a handler takes from its environment (the clock, the random identifier,
  whether a database call succeeds) is an argument. Exceptions are values, and a
  \<open>catch\<close> is a case distinction on them.
\<close>

section \<open>Strings and JavaScript truthiness\<close>

text \<open>
  A string is a list of characters, each a code unit below 256 (ASCII and the Latin-1
  supplement); text with other code units is outside the model.

  \<open>ascii_lower\<close> lowers the letters A to Z, which is all that matters for hexadecimal
  digits. \<open>String.prototype.toLowerCase\<close> also lowers the Latin-1 capitals
  (code units 192 to 222 except the multiplication sign 215).
\<close>

definition ascii_lower :: "char \<Rightarrow> char" where
  "ascii_lower c =
     (let k = (of_char c :: nat) in if 65 \<le> k \<and> k \<le> 90 then char_of (k + 32) else c)"

definition js_lower :: "char \<Rightarrow> char" where
  "js_lower c =
     (let k = (of_char c :: nat) in
      if (65 \<le> k \<and> k \<le> 90) \<or> (192 \<le> k \<and> k \<le> 222 \<and> k \<noteq> 215)
      then char_of (k + 32) else c)"

definition toLowerCase :: "string \<Rightarrow> string" where
  "toLowerCase s = map js_lower s"

text \<open>
  \<open>c.toUpperCase()\<close> for one character, as a string: the sharp s (223) becomes
  \<open>SS\<close>. The capitals of the micro sign (181) and of y with diaeresis (255) are not
  code units below 256; the model leaves these two characters as they are.
\<close>

definition js_upper :: "char \<Rightarrow> string" where
  "js_upper c =
     (let k = (of_char c :: nat) in
      if (97 \<le> k \<and> k \<le> 122) \<or> (224 \<le> k \<and> k \<le> 254 \<and> k \<noteq> 247)
      then [char_of (k - 32)]
      else if k = 223 then ''SS''
      else [c])"

text \<open>\<open>!s\<close> on a string: only the empty string is falsy.\<close>

definition falsy :: "string \<Rightarrow> bool" where
  "falsy s = (s = [])"

text \<open>\<open>!v\<close> on a value that may be \<open>undefined\<close>/\<open>null\<close> or a string.\<close>

definition falsy_opt :: "string option \<Rightarrow> bool" where
  "falsy_opt v = (case v of None \<Rightarrow> True | Some s \<Rightarrow> falsy s)"

section \<open>Token service (qrService.js)\<close>

subsection \<open>Hexadecimal digests and buffers\<close>

type_synonym byte = "8 word"

text \<open>\<open>digest('hex')\<close>: two lower-case hexadecimal digits per byte.\<close>

definition hex_digit :: "nat \<Rightarrow> char" where
  "hex_digit n = char_of (if n < 10 then 48 + n else 87 + n)"

definition hex_byte :: "byte \<Rightarrow> string" where
  "hex_byte w = [hex_digit (unat w div 16), hex_digit (unat w mod 16)]"

definition hex_encode :: "byte list \<Rightarrow> string" where
  "hex_encode bs = concat (map hex_byte bs)"

text \<open>
  \<open>Buffer.from(s, 'hex')\<close>: digits of either case are accepted, decoding stops at the
  first pair that is not two hexadecimal digits, and a trailing single character is dropped.
\<close>

definition unhex :: "char \<Rightarrow> nat option" where
  "unhex c =
     (let k = (of_char c :: nat) in
      if 48 \<le> k \<and> k \<le> 57 then Some (k - 48)
      else if 97 \<le> k \<and> k \<le> 102 then Some (k - 87)
      else if 65 \<le> k \<and> k \<le> 70 then Some (k - 55)
      else None)"

fun buffer_from_hex :: "string \<Rightarrow> byte list" where
  "buffer_from_hex (a # b # rest) =
     (case unhex a of
        None \<Rightarrow> []
      | Some x \<Rightarrow>
          (case unhex b of
             None \<Rightarrow> []
           | Some y \<Rightarrow> of_nat (16 * x + y) # buffer_from_hex rest))"
| "buffer_from_hex _ = []"

datatype js_error = RangeError | Error string

text \<open>
  \<open>crypto.timingSafeEqual(a, b)\<close> throws a \<open>RangeError\<close> when the two buffers differ in
  byte length, and otherwise tells whether they hold the same bytes.
\<close>

definition timingSafeEqual :: "byte list \<Rightarrow> byte list \<Rightarrow> js_error + bool" where
  "timingSafeEqual a b = (if length a \<noteq> length b then Inl RangeError else Inr (a = b))"

subsection \<open>The signed payload and the key-value store\<close>

text \<open>
  The payload \<open>{ qrId, sessionId, timestamp }\<close> that is serialised with its keys sorted
  and fed to HMAC-SHA256. The keyed digest is a library function; the model takes it as a
  parameter \<open>hmac\<close> from the secret and the payload to the digest bytes.
\<close>

record payload =
  p_qrId :: string
  p_sessionId :: string
  p_timestamp :: int

type_synonym keyed_digest = "string \<Rightarrow> payload \<Rightarrow> byte list"

text \<open>The key handed to \<open>createHmac\<close>; it is only read after the check that it is set.\<close>

fun secret_key :: "string option \<Rightarrow> string" where
  "secret_key (Some k) = k"
| "secret_key None = []"

text \<open>
  A value under a \<open>qr:\<close> key is the text \<open>JSON.stringify({ sessionId, timestamp })\<close>
  written by \<open>generateQR\<close>; \<open>Not_json\<close> stands for any text \<open>JSON.parse\<close> rejects.
  Every entry carries the instant (milliseconds) at which its time-to-live runs out.
\<close>

datatype redis_value = Json_entry string int | Not_json string

type_synonym qr_store = "string \<rightharpoonup> redis_value \<times> int"

definition QR_TTL :: int where
  "QR_TTL = 300"

definition QR_KEY_PREFIX :: string where
  "QR_KEY_PREFIX = ''qr:''"

definition redis_setex :: "qr_store \<Rightarrow> int \<Rightarrow> string \<Rightarrow> int \<Rightarrow> redis_value \<Rightarrow> qr_store" where
  "redis_setex store now key ttl v = store(key \<mapsto> (v, now + ttl * 1000))"

definition redis_get :: "qr_store \<Rightarrow> int \<Rightarrow> string \<Rightarrow> redis_value option" where
  "redis_get store now key =
     (case store key of
        None \<Rightarrow> None
      | Some (v, expires) \<Rightarrow> if now < expires then Some v else None)"

definition redis_del :: "qr_store \<Rightarrow> string \<Rightarrow> qr_store" where
  "redis_del store key = store(key := None)"

subsection \<open>generateQR\<close>

text \<open>
  The object \<open>{ qrId, signature }\<close> whose JSON text is drawn as the QR symbol, as the
  list of its fields; \<open>QR_image\<close> is the rendered data URL, which a scanner decodes back
  to that text.
\<close>

type_synonym json_object = "(string \<times> string) list"

datatype qr_image = QR_image json_object

fun qr_decode :: "qr_image \<Rightarrow> json_object" where
  "qr_decode (QR_image obj) = obj"

record qr_result =
  qr_qrId :: string
  qr_qrImage :: qr_image
  qr_expiresAt :: int
  qr_signature :: string

text \<open>
  \<open>generateQR(sessionId)\<close>. The environment is passed in: the digest function, the value
  of \<open>process.env.JWT_SECRET\<close>, the identifier drawn by \<open>uuidv4()\<close>, the clock
  \<open>Date.now()\<close> and the store. A thrown \<open>Error\<close> is \<open>Inl\<close>.
\<close>

definition generateQR ::
  "keyed_digest \<Rightarrow> string option \<Rightarrow> string \<Rightarrow> int \<Rightarrow> qr_store \<Rightarrow> string
     \<Rightarrow> js_error + (qr_result \<times> qr_store)" where
  "generateQR hmac secret uuid now store sessionId =
     (if falsy sessionId then Inl (Error ''sessionId is required'')
      else if falsy_opt secret then Inl (Error ''JWT_SECRET is not configured'')
      else
        let qrId = uuid;
            timestamp = now;
            payload = \<lparr>p_qrId = qrId, p_sessionId = sessionId, p_timestamp = timestamp\<rparr>;
            signature = hex_encode (hmac (secret_key secret) payload);
            redisKey = QR_KEY_PREFIX @ qrId;
            redisValue = Json_entry sessionId timestamp;
            store' = redis_setex store now redisKey QR_TTL redisValue;
            qrData = [(''qrId'', qrId), (''signature'', signature)];
            qrImage = QR_image qrData;
            expiresAt = timestamp + 300000
        in Inr (\<lparr>qr_qrId = qrId, qr_qrImage = qrImage, qr_expiresAt = expiresAt,
                  qr_signature = signature\<rparr>, store'))"

subsection \<open>validateQR\<close>

text \<open>
  \<open>validateQR(qrId, signature)\<close> returns the session id or \<open>null\<close> (\<open>None\<close>), together
  with the store it leaves behind. The \<open>RangeError\<close> of \<open>timingSafeEqual\<close> is caught by
  the function's outer \<open>catch\<close>, which returns \<open>null\<close> without touching the store.
\<close>

definition validateQR ::
  "keyed_digest \<Rightarrow> string option \<Rightarrow> int \<Rightarrow> qr_store \<Rightarrow> string \<Rightarrow> string
     \<Rightarrow> string option \<times> qr_store" where
  "validateQR hmac secret now store qrId signature =
     (if falsy qrId \<or> falsy signature then (None, store)
      else if falsy_opt secret then (None, store)
      else
        let redisKey = QR_KEY_PREFIX @ qrId in
        case redis_get store now redisKey of
          None \<Rightarrow> (None, store)
        | Some (Not_json raw) \<Rightarrow> (None, store)
        | Some (Json_entry sessionId timestamp) \<Rightarrow>
            let payload = \<lparr>p_qrId = qrId, p_sessionId = sessionId, p_timestamp = timestamp\<rparr>;
                expectedSignature = hex_encode (hmac (secret_key secret) payload)
            in
              if length signature \<noteq> length expectedSignature
              then (None, redis_del store redisKey)
              else
                (case timingSafeEqual (buffer_from_hex signature)
                                      (buffer_from_hex expectedSignature) of
                   Inl err \<Rightarrow> (None, store)
                 | Inr isValid \<Rightarrow>
                     if \<not> isValid then (None, redis_del store redisKey)
                     else (Some sessionId, redis_del store redisKey)))"

subsection \<open>expireQR\<close>

definition expireQR :: "qr_store \<Rightarrow> int \<Rightarrow> string \<Rightarrow> bool \<times> qr_store" where
  "expireQR store now qrId =
     (if falsy qrId then (False, store)
      else
        let redisKey = QR_KEY_PREFIX @ qrId
        in (redis_get store now redisKey \<noteq> None, redis_del store redisKey))"

text \<open>
  A stand-in keyed digest of 32 bytes, used only to evaluate the model at concrete inputs.
  The general theorems hold for every digest function.
\<close>

definition toy_mac :: keyed_digest where
  "toy_mac key p =
     of_nat (length key) # of_nat (length (p_qrId p)) # of_nat (length (p_sessionId p))
       # of_nat (nat (p_timestamp p mod 256)) # replicate 28 (0xAB :: byte)"

text \<open>A concrete token: issued for session \<open>S1\<close> into an empty store.\<close>

definition demo_secret :: "string option" where
  "demo_secret = Some ''top-secret''"

definition demo_uuid :: string where
  "demo_uuid = ''7c9e6679-7425-40de-944b-e07fc1f90ae7''"

definition demo_issued :: int where
  "demo_issued = 1700000000000"

definition demo_signature :: string where
  "demo_signature = ''0a240200abababababababababababababababababababababababababababab''"

definition demo_result :: qr_result where
  "demo_result =
     \<lparr>qr_qrId = demo_uuid,
      qr_qrImage = QR_image [(''qrId'', demo_uuid), (''signature'', demo_signature)],
      qr_expiresAt = demo_issued + 300000,
      qr_signature = demo_signature\<rparr>"

definition demo_store :: qr_store where
  "demo_store = [QR_KEY_PREFIX @ demo_uuid \<mapsto> (Json_entry ''S1'' demo_issued, demo_issued + 300000)]"

text \<open>The same signature with its hexadecimal letters in upper case, wholly and in part.\<close>

definition demo_signature_upper :: string where
  "demo_signature_upper = ''0A240200ABABABABABABABABABABABABABABABABABABABABABABABABABABABAB''"

definition demo_signature_mixed :: string where
  "demo_signature_mixed = ''0A240200abababababababababababababababababababababababababababab''"

text \<open>A text of the signature's length that is not hexadecimal.\<close>

definition demo_signature_malformed :: string where
  "demo_signature_malformed = replicate 64 CHR ''z''"

section \<open>Intent extraction (contextEngine.js)\<close>

subsection \<open>The regular expressions in use\<close>

text \<open>
  The patterns of the context engine are built from literals, \<open>\s*\<close>, \<open>\s+\<close>, one
  capturing \<open>(\d+)\<close>, \<open>\b\<close>, alternation and \<open>?\<close>. A pattern is matched by
  backtracking: \<open>rx_match\<close> lists the ways a pattern can match at one position, in the
  order in which the engine tries them, so the head of the list is the match it reports.
  All patterns carry the \<open>i\<close> flag and are written in lower case; matching is done on the
  lower-cased subject.
\<close>

datatype rx =
    Lit string
  | Seq rx rx
  | Alt rx rx
  | Opt rx
  | WS_star
  | WS_plus
  | Digits
  | Bnd

definition is_digit :: "char \<Rightarrow> bool" where
  "is_digit c = (c \<in> set ''0123456789'')"

text \<open>
  \<open>\s\<close> and the white space of \<open>trim()\<close>: among the code units below 256 these are
  the space, the controls 9 to 13 and the no-break space 160.
\<close>

definition is_space :: "char \<Rightarrow> bool" where
  "is_space c =
     (c \<in> set [CHR '' '', CHR 0x09, CHR 0x0A, CHR 0x0B, CHR 0x0C, CHR 0x0D, CHR 0xA0])"

definition is_word_char :: "char \<Rightarrow> bool" where
  "is_word_char c =
     (c \<in> set ''abcdefghijklmnopqrstuvwxyzABCDEFGHIJKLMNOPQRSTUVWXYZ0123456789_'')"

text \<open>
  A position in the subject: the character before it (if any), the text after it, and the
  text captured by \<open>(\d+)\<close> so far.
\<close>

type_synonym rx_pos = "char option \<times> string \<times> string option"

definition advance :: "nat \<Rightarrow> char option \<Rightarrow> string \<Rightarrow> char option" where
  "advance k prev s = (if k = 0 \<or> s = [] then prev else Some (last (take k s)))"

definition word_before :: "char option \<Rightarrow> bool" where
  "word_before prev = (case prev of None \<Rightarrow> False | Some c \<Rightarrow> is_word_char c)"

definition word_after :: "string \<Rightarrow> bool" where
  "word_after s = (case s of [] \<Rightarrow> False | c # cs \<Rightarrow> is_word_char c)"

fun rx_match :: "rx \<Rightarrow> rx_pos \<Rightarrow> rx_pos list" where
  "rx_match (Lit l) (prev, s, cap) =
     (if take (length l) s = l then [(advance (length l) prev s, drop (length l) s, cap)]
      else [])"
| "rx_match (Seq a b) p = concat (map (rx_match b) (rx_match a p))"
| "rx_match (Alt a b) p = rx_match a p @ rx_match b p"
| "rx_match (Opt a) p = rx_match a p @ [p]"
| "rx_match WS_star (prev, s, cap) =
     map (\<lambda>k. (advance k prev s, drop k s, cap))
         (rev [0 ..< Suc (length (takeWhile is_space s))])"
| "rx_match WS_plus (prev, s, cap) =
     map (\<lambda>k. (advance k prev s, drop k s, cap))
         (rev [1 ..< Suc (length (takeWhile is_space s))])"
| "rx_match Digits (prev, s, cap) =
     map (\<lambda>k. (advance k prev s, drop k s, Some (take k s)))
         (rev [1 ..< Suc (length (takeWhile is_digit s))])"
| "rx_match Bnd (prev, s, cap) =
     (if word_before prev \<noteq> word_after s then [(prev, s, cap)] else [])"

text \<open>
  The leftmost match: the pattern is tried at every position from the left. The result is
  the matched text, the capture, the character before the rest, and the rest.
\<close>

fun rx_search :: "rx \<Rightarrow> char option \<Rightarrow> string
    \<Rightarrow> (string \<times> string option \<times> char option \<times> string) option" where
  "rx_search r prev [] =
     (case rx_match r (prev, [], None) of
        [] \<Rightarrow> None
      | (prev', rest, cap) # others \<Rightarrow> Some ([], cap, prev', rest))"
| "rx_search r prev (c # cs) =
     (case rx_match r (prev, c # cs, None) of
        [] \<Rightarrow> rx_search r (Some c) cs
      | (prev', rest, cap) # others \<Rightarrow>
          Some (take (length (c # cs) - length rest) (c # cs), cap, prev', rest))"

text \<open>\<open>pattern.test(text)\<close> for a pattern with the \<open>i\<close> flag.\<close>

definition rx_test :: "rx \<Rightarrow> string \<Rightarrow> bool" where
  "rx_test r text = (rx_search r None (toLowerCase text) \<noteq> None)"

text \<open>\<open>text.match(pattern)[1]\<close>: the capture of the leftmost match, if there is one.\<close>

definition rx_capture :: "rx \<Rightarrow> string \<Rightarrow> string option" where
  "rx_capture r text =
     (case rx_search r None (toLowerCase text) of
        None \<Rightarrow> None
      | Some (matched, cap, prev, rest) \<Rightarrow> cap)"

text \<open>
  \<open>text.match(pattern)\<close> with the flags \<open>gi\<close>: every match from left to right, each search
  resuming where the last match ended. The patterns used this way never match the empty
  text; the fuel (the length of the subject) bounds the number of matches.
\<close>

fun rx_all :: "nat \<Rightarrow> rx \<Rightarrow> char option \<Rightarrow> string \<Rightarrow> string list" where
  "rx_all 0 r prev s = []"
| "rx_all (Suc n) r prev s =
     (case rx_search r prev s of
        None \<Rightarrow> []
      | Some (matched, cap, prev', rest) \<Rightarrow>
          if matched = [] then [] else matched # rx_all n r prev' rest)"

definition rx_match_all :: "rx \<Rightarrow> string \<Rightarrow> string list" where
  "rx_match_all r text = rx_all (length text) r None (toLowerCase text)"

text \<open>\<open>\b(w1|w2|...)\b\<close> for alternatives that are patterns themselves.\<close>

fun alts :: "rx list \<Rightarrow> rx" where
  "alts [] = Lit []"
| "alts [r] = r"
| "alts (r # rs) = Alt r (alts rs)"

definition words :: "rx list \<Rightarrow> rx" where
  "words rs = Seq Bnd (Seq (alts rs) Bnd)"

text \<open>\<open>a\s+b\<close> and \<open>a\s*b\<close>.\<close>

definition sp1 :: "string \<Rightarrow> string \<Rightarrow> rx" where
  "sp1 a b = Seq (Lit a) (Seq WS_plus (Lit b))"

definition sp0 :: "string \<Rightarrow> string \<Rightarrow> rx" where
  "sp0 a b = Seq (Lit a) (Seq WS_star (Lit b))"

subsection \<open>Intent values\<close>

text \<open>
  A budget is a number or a text such as \<open>'flexible'\<close>. Amounts are the integers that
  \<open>parseInt\<close> reads or the constants 100, 200 and 500.
\<close>

datatype budget = Num int | Str string

text \<open>
  The intent object. A field is \<open>None\<close> when the object does not have it, as for the
  empty object \<open>{}\<close> of a new session; \<open>i_tags\<close> is the optional \<open>tags\<close> array that
  \<open>getRecommendations\<close> looks for.
\<close>

record intent =
  i_occasion :: "string option"
  i_style :: "string option"
  i_season :: "string option"
  i_budget :: "budget option"
  i_urgency :: "string option"
  i_preferences :: "string list option"
  i_tags :: "string list option"

definition empty_intent :: intent where
  "empty_intent =
     \<lparr>i_occasion = None, i_style = None, i_season = None, i_budget = None,
      i_urgency = None, i_preferences = None, i_tags = None\<rparr>"

text \<open>\<open>previousValue || dflt\<close> on an optional string.\<close>

definition or_default :: "string option \<Rightarrow> string \<Rightarrow> string" where
  "or_default previousValue dflt =
     (case previousValue of None \<Rightarrow> dflt | Some v \<Rightarrow> if falsy v then dflt else v)"

text \<open>\<open>previousValue || 'flexible'\<close> on an optional budget: 0 and the empty text are falsy.\<close>

definition budget_or_flexible :: "budget option \<Rightarrow> budget" where
  "budget_or_flexible previousValue =
     (case previousValue of
        None \<Rightarrow> Str ''flexible''
      | Some (Num n) \<Rightarrow> if n = 0 then Str ''flexible'' else Num n
      | Some (Str s) \<Rightarrow> if falsy s then Str ''flexible'' else Str s)"

subsection \<open>The extractors\<close>

definition extractOccasion :: "string \<Rightarrow> string option \<Rightarrow> string" where
  "extractOccasion text previousValue =
     (if falsy text then or_default previousValue ''other''
      else if rx_test (words [Lit ''wedding'', Lit ''marriage'', Lit ''ceremony'',
                              Lit ''bridal'', Lit ''groom'']) text then ''wedding''
      else if rx_test (words [Lit ''work'', Lit ''office'', Lit ''business'', Lit ''meeting'',
                              Lit ''interview'', Lit ''professional'', Lit ''corporate'']) text
           then ''work''
      else if rx_test (words [Lit ''party'', Lit ''celebration'', Lit ''event'', Lit ''gala'',
                              Lit ''festival'', Lit ''gathering'']) text then ''party''
      else if rx_test (words [Lit ''date'', Lit ''romantic'', Lit ''dinner'',
                              sp1 ''evening'' ''out'', sp1 ''night'' ''out'']) text then ''date''
      else if rx_test (words [Lit ''casual'', Lit ''everyday'', Lit ''weekend'', Lit ''daily'',
                              Lit ''regular'']) text then ''casual''
      else or_default previousValue ''other'')"

definition extractStyle :: "string \<Rightarrow> string option \<Rightarrow> string" where
  "extractStyle text previousValue =
     (if falsy text then or_default previousValue ''casual''
      else if rx_test (words [Lit ''formal'', Lit ''suit'', Lit ''blazer'',
                              sp1 ''dress'' ''shirt'', Lit ''tuxedo'', Lit ''tie'']) text
           then ''formal''
      else if rx_test (words [Lit ''business'', Lit ''professional'', Lit ''corporate'',
                              Lit ''executive'']) text then ''business''
      else if rx_test (words [Lit ''trendy'', Lit ''fashionable'', Lit ''stylish'',
                              Lit ''modern'', Lit ''contemporary'', Lit ''hip'']) text
           then ''trendy''
      else if rx_test (words [Lit ''classic'', Lit ''traditional'', Lit ''timeless'',
                              Lit ''vintage'', Lit ''conservative'']) text then ''classic''
      else if rx_test (words [Lit ''sport'', Lit ''athletic'', Lit ''active'', Lit ''gym'',
                              Lit ''workout'', Lit ''athleisure'']) text then ''sporty''
      else if rx_test (words [Lit ''casual'', Lit ''relaxed'', Lit ''comfortable'',
                              Lit ''easygoing'', sp1 ''laid'' ''back'']) text then ''casual''
      else or_default previousValue ''casual'')"

definition extractSeason :: "string \<Rightarrow> string option \<Rightarrow> string" where
  "extractSeason text previousValue =
     (if falsy text then or_default previousValue ''all-season''
      else if rx_test (words [Lit ''summer'', Lit ''hot'', Lit ''lightweight'',
                              Lit ''breathable'', Lit ''beach'', Lit ''sunny'',
                              sp1 ''warm'' ''weather'']) text then ''summer''
      else if rx_test (words [Lit ''winter'', Lit ''cold'', Lit ''warm'', Lit ''layer'',
                              Lit ''layering'', Lit ''snow'', Lit ''freezing'',
                              Lit ''insulated'', Lit ''wool'', Lit ''fleece'']) text
           then ''winter''
      else if rx_test (words [Lit ''spring'', Lit ''bloom'', Lit ''mild'']) text then ''spring''
      else if rx_test (words [Lit ''fall'', Lit ''autumn'', Lit ''cooler'', Lit ''crisp'']) text
           then ''fall''
      else or_default previousValue ''all-season'')"

text \<open>The seven number patterns of \<open>extractBudget\<close>, in the order of the source.\<close>

definition numberPatterns :: "rx list" where
  "numberPatterns =
     [Seq (Lit ''$'') Digits,
      Seq Digits (Seq WS_star (Seq (Lit ''dollar'') (Opt (Lit ''s'')))),
      Seq (Lit ''budget'') (Seq WS_star (Seq (Opt (Alt (Lit ''of'') (Lit ''is'')))
         (Seq WS_star Digits))),
      Seq (Lit ''around'') (Seq WS_star Digits),
      Seq (Lit ''up'') (Seq WS_plus (Seq (Lit ''to'') (Seq WS_star Digits))),
      Seq Digits (Seq WS_star (Alt (Seq (Lit ''buck'') (Opt (Lit ''s''))) (Lit ''usd''))),
      Seq (Lit ''approximately'') (Seq WS_star Digits)]"

text \<open>
  \<open>parseInt(digits, 10)\<close> on a run of decimal digits: the integer the digits denote,
  as the double nearest to it. Every integer below \<open>2^53\<close> is a double; a larger one
  keeps its 53 leading bits, rounded to nearest with ties to even (\<open>to_double\<close>). A
  run of more than 308 digits, which the source reads as \<open>Infinity\<close>, is outside the
  model.
\<close>

definition digit_value :: "char \<Rightarrow> int" where
  "digit_value c = int (of_char c) - 48"

fun bit_length :: "nat \<Rightarrow> nat" where
  "bit_length n = (if n = 0 then 0 else Suc (bit_length (n div 2)))"

definition to_double :: "int \<Rightarrow> int" where
  "to_double n =
     (if n < 9007199254740992 then n
      else
        let dropped = bit_length (nat n) - 53;
            q = n div 2 ^ dropped;
            r = n mod 2 ^ dropped;
            half = 2 ^ (dropped - 1)
        in (if r > half \<or> (r = half \<and> odd q) then q + 1 else q) * 2 ^ dropped)"

definition parseInt :: "string \<Rightarrow> int" where
  "parseInt ds = to_double (foldl (\<lambda>n c. 10 * n + digit_value c) 0 ds)"

text \<open>The \<open>for\<close> loop over the patterns: the first pattern with a positive amount wins.\<close>

fun first_amount :: "rx list \<Rightarrow> string \<Rightarrow> int option" where
  "first_amount [] text = None"
| "first_amount (pattern # patterns) text =
     (case rx_capture pattern text of
        None \<Rightarrow> first_amount patterns text
      | Some digits \<Rightarrow>
          if digits \<noteq> [] \<and> parseInt digits > 0 then Some (parseInt digits)
          else first_amount patterns text)"

definition extractBudget :: "string \<Rightarrow> budget option \<Rightarrow> budget" where
  "extractBudget text previousValue =
     (if falsy text then budget_or_flexible previousValue
      else
        case first_amount numberPatterns text of
          Some amount \<Rightarrow> Num amount
        | None \<Rightarrow>
            if rx_test (words [Lit ''cheap'', Lit ''affordable'', Lit ''budget'',
                               Lit ''inexpensive'', Lit ''economical'', sp1 ''low'' ''price''])
                 text then Num 100
            else if rx_test (words [Lit ''expensive'', Lit ''luxury'', Lit ''premium'',
                               sp1 ''high'' ''end'', Lit ''designer'', Lit ''upscale'']) text
                 then Num 500
            else if rx_test (words [sp0 ''mid'' ''range'', Lit ''moderate'', Lit ''medium''])
                 text then Num 200
            else budget_or_flexible previousValue)"

definition extractUrgency :: "string \<Rightarrow> string option \<Rightarrow> string" where
  "extractUrgency text previousValue =
     (if falsy text then or_default previousValue ''flexible''
      else if rx_test (words [Lit ''today'', sp1 ''right'' ''now'', Lit ''asap'',
                Seq (sp1 ''as'' ''soon'') (Seq WS_plus (sp1 ''as'' ''possible'')),
                Lit ''immediately'', Lit ''urgently'', sp1 ''right'' ''away'',
                sp1 ''this'' ''evening'']) text then ''today''
      else if rx_test (words [sp1 ''this'' ''week'', Lit ''soon'', Lit ''urgent'',
                Lit ''quickly'', Lit ''fast'', sp1 ''needed'' ''soon'', Lit ''asap'',
                Lit ''hurry'']) text then ''this-week''
      else or_default previousValue ''flexible'')"

definition colors :: "string list" where
  "colors = [''black'', ''white'', ''blue'', ''red'', ''green'', ''grey'', ''gray'', ''brown'',
             ''navy'', ''beige'', ''tan'', ''burgundy'']"

definition materials_rx :: rx where
  "materials_rx = words [Lit ''cotton'', Lit ''wool'', Lit ''linen'', Lit ''silk'',
                         Lit ''polyester'', Lit ''denim'', Lit ''leather'', Lit ''suede'']"

definition fits_rx :: rx where
  "fits_rx = words [Lit ''slim'', Lit ''loose'', Lit ''fitted'', Lit ''relaxed'',
                    Lit ''tailored'', Lit ''baggy'', Lit ''skinny'']"

text \<open>
  The two \<open>forEach\<close> loops that push a normalised match unless it is already among the
  previous or the new preferences.
\<close>

fun push_new :: "string list \<Rightarrow> string list \<Rightarrow> string list \<Rightarrow> string list" where
  "push_new preferences newPreferences [] = newPreferences"
| "push_new preferences newPreferences (m # ms) =
     (let normalized = toLowerCase m in
      if normalized \<notin> set preferences \<and> normalized \<notin> set newPreferences
      then push_new preferences (newPreferences @ [normalized]) ms
      else push_new preferences newPreferences ms)"

definition extractPreferences :: "string \<Rightarrow> string list option \<Rightarrow> string list" where
  "extractPreferences text previousPreferences =
     (let preferences = (case previousPreferences of None \<Rightarrow> [] | Some ps \<Rightarrow> ps);
          newPreferences0 =
            filter (\<lambda>color. rx_test (words [Lit color]) text \<and> color \<notin> set preferences)
                   colors;
          newPreferences1 =
            (if rx_test materials_rx text
             then push_new preferences newPreferences0 (rx_match_all materials_rx text)
             else newPreferences0);
          newPreferences2 =
            (if rx_test fits_rx text
             then push_new preferences newPreferences1 (rx_match_all fits_rx text)
             else newPreferences1)
      in preferences @ newPreferences2)"

subsection \<open>Tags and summary\<close>

definition capitalize :: "string \<Rightarrow> string" where
  "capitalize str = (case str of [] \<Rightarrow> [] | c # cs \<Rightarrow> js_upper c @ cs)"

definition truthy_opt :: "string option \<Rightarrow> bool" where
  "truthy_opt v = (\<not> falsy_opt v)"

definition str_of :: "string option \<Rightarrow> string" where
  "str_of v = (case v of None \<Rightarrow> [] | Some s \<Rightarrow> s)"

definition generateTags :: "intent \<Rightarrow> string list" where
  "generateTags intent =
     (let tags0 =
            (if truthy_opt (i_occasion intent) \<and> i_occasion intent \<noteq> Some ''other''
             then [''#'' @ capitalize (str_of (i_occasion intent))]
                  @ (if i_occasion intent = Some ''wedding'' then [''#Wedding''] else [])
             else []);
          tags1 =
            (if truthy_opt (i_style intent)
             then tags0 @ [''#'' @ capitalize (str_of (i_style intent))]
             else tags0);
          tags2 =
            (if truthy_opt (i_season intent) \<and> i_season intent \<noteq> Some ''all-season''
             then tags1 @
                  [if i_season intent = Some ''summer'' then ''#SummerWear''
                   else if i_season intent = Some ''winter'' then ''#WinterWear''
                   else ''#'' @ capitalize (str_of (i_season intent)) @ ''Wear'']
             else tags1);
          tags3 =
            (if i_urgency intent = Some ''today'' then tags2 @ [''#Urgent''] else tags2);
          tags4 =
            (case i_budget intent of
               Some (Num n) \<Rightarrow>
                 if n > 300 then tags3 @ [''#Premium'']
                 else if n < 100 then tags3 @ [''#Budget'']
                 else tags3
             | _ \<Rightarrow> tags3)
      in tags4)"

text \<open>Decimal text of an integer, as a template literal prints it.\<close>

fun digits_of :: "nat \<Rightarrow> nat \<Rightarrow> string" where
  "digits_of 0 n = []"
| "digits_of (Suc fuel) n =
     (if n < 10 then [char_of (48 + n)]
      else digits_of fuel (n div 10) @ [char_of (48 + n mod 10)])"

definition show_int :: "int \<Rightarrow> string" where
  "show_int i =
     (if i < 0 then ''-'' @ digits_of (Suc (nat (- i))) (nat (- i))
      else digits_of (Suc (nat i)) (nat i))"

text \<open>\<open>xs.join(', ')\<close>.\<close>

fun join_comma :: "string list \<Rightarrow> string" where
  "join_comma [] = []"
| "join_comma [x] = x"
| "join_comma (x # xs) = x @ '', '' @ join_comma xs"

definition generateSummary :: "intent \<Rightarrow> string" where
  "generateSummary intent =
     (let parts0 =
            (if truthy_opt (i_occasion intent) \<and> i_occasion intent \<noteq> Some ''other''
             then [''for '' @ str_of (i_occasion intent)] else []);
          parts1 =
            (if truthy_opt (i_style intent)
             then parts0 @ [str_of (i_style intent) @ '' style''] else parts0);
          parts2 =
            (if truthy_opt (i_season intent) \<and> i_season intent \<noteq> Some ''all-season''
             then parts1 @ [''suitable for '' @ str_of (i_season intent)] else parts1);
          parts3 =
            (case i_budget intent of
               Some (Num n) \<Rightarrow> parts2 @ [''within $'' @ show_int n @ '' budget'']
             | Some (Str s) \<Rightarrow>
                 if s = ''flexible'' then parts2 @ [''flexible budget''] else parts2
             | None \<Rightarrow> parts2);
          parts4 =
            (if truthy_opt (i_urgency intent) \<and> i_urgency intent \<noteq> Some ''flexible''
             then (if i_urgency intent = Some ''today'' then parts3 @ [''needed today'']
                   else if i_urgency intent = Some ''this-week''
                   then parts3 @ [''needed this week'']
                   else parts3)
             else parts3);
          parts5 =
            (case i_preferences intent of
               None \<Rightarrow> parts4
             | Some ps \<Rightarrow>
                 if length ps > 0
                 then parts4 @ [''preferences: '' @ join_comma (take 3 ps)]
                 else parts4)
      in if length parts5 = 0 then ''Looking for clothing items''
         else ''Looking '' @ join_comma parts5)"

subsection \<open>parseUserMessage\<close>

text \<open>
  A conversation entry as the session schema stores it. The extractor also reads the
  alternative field names \<open>content\<close> and \<open>role\<close>, which entries of this shape do not have.
\<close>

record message =
  m_text :: string
  m_sender :: string
  m_timestamp :: int

record previous_context =
  c_text :: string
  c_occasion :: "string option"
  c_style :: "string option"
  c_season :: "string option"
  c_budget :: "budget option"
  c_urgency :: "string option"
  c_preferences :: "string list"

text \<open>\<open>xs.join(' ')\<close>.\<close>

fun join_space :: "string list \<Rightarrow> string" where
  "join_space [] = []"
| "join_space [x] = x"
| "join_space (x # xs) = x @ '' '' @ join_space xs"

definition extractPreviousContext :: "message list \<Rightarrow> previous_context" where
  "extractPreviousContext conversationHistory =
     (let context = \<lparr>c_text = [], c_occasion = None, c_style = None, c_season = None,
                      c_budget = None, c_urgency = None, c_preferences = []\<rparr>
      in if length conversationHistory = 0 then context
         else
           let previousMessages =
                 filter (\<lambda>text. length text > 0)
                   (map (\<lambda>msg. toLowerCase (m_text msg))
                     (filter (\<lambda>msg. toLowerCase (m_sender msg) = ''user'')
                        conversationHistory));
               combinedPreviousText = join_space previousMessages
           in if falsy combinedPreviousText then context\<lparr>c_text := combinedPreviousText\<rparr>
              else
                \<lparr>c_text = combinedPreviousText,
                 c_occasion = Some (extractOccasion combinedPreviousText None),
                 c_style = Some (extractStyle combinedPreviousText None),
                 c_season = Some (extractSeason combinedPreviousText None),
                 c_budget = Some (extractBudget combinedPreviousText None),
                 c_urgency = Some (extractUrgency combinedPreviousText None),
                 c_preferences = extractPreferences combinedPreviousText None\<rparr>)"

text \<open>
  The result \<open>{ intent, tags, summary, confidence }\<close> without the confidence, a
  floating-point score that is only echoed to the client.
\<close>

record parsed =
  pa_intent :: intent
  pa_tags :: "string list"
  pa_summary :: string

definition parseUserMessage :: "string \<Rightarrow> message list \<Rightarrow> parsed" where
  "parseUserMessage message conversationHistory =
     (let text = toLowerCase message;
          previousContext = extractPreviousContext conversationHistory;
          combinedText =
            (if falsy (c_text previousContext) then text
             else c_text previousContext @ '' '' @ text);
          intent =
            \<lparr>i_occasion = Some (extractOccasion combinedText (c_occasion previousContext)),
             i_style = Some (extractStyle combinedText (c_style previousContext)),
             i_season = Some (extractSeason combinedText (c_season previousContext)),
             i_budget = Some (extractBudget combinedText (c_budget previousContext)),
             i_urgency = Some (extractUrgency combinedText (c_urgency previousContext)),
             i_preferences =
               Some (extractPreferences combinedText (Some (c_preferences previousContext))),
             i_tags = None\<rparr>
      in \<lparr>pa_intent = intent, pa_tags = generateTags intent,
          pa_summary = generateSummary intent\<rparr>)"

text \<open>The message of the wedding scenario, the intent it yields, and the message twice.\<close>


definition wedding_message :: string where
  "wedding_message = ''wedding in summer, budget $200''"

definition wedding_intent :: intent where
  "wedding_intent =
    \<lparr>i_occasion = Some ''wedding'', i_style = Some ''casual'',
       i_season = Some ''summer'', i_budget = Some (Num 200),
       i_urgency = Some ''flexible'', i_preferences = Some [],
       i_tags = None\<rparr>"

definition wedding_twice :: string where
  "wedding_twice = ''wedding in summer, budget $200 wedding in summer, budget $200''"





section \<open>Recommendations (recommendationEngine.js)\<close>

text \<open>
  A product document as the engine reads it. The Product model is an external collaborator;
  the fields are those the engine uses (id, name, category, price, tags, stock flag and
  stock count), each optional where the engine guards against its absence. Prices are exact
  rationals here, doubles in the source.

  A price can be a number, \<open>null\<close> or missing. In \<open>product.price - budget\<close> a
  \<open>null\<close> counts as 0 and a missing price gives \<open>NaN\<close>, for which every comparison
  is false.
\<close>

datatype price = Price rat | Null_price | No_price

fun price_number :: "price \<Rightarrow> rat option" where
  "price_number (Price x) = Some x"
| "price_number Null_price = Some 0"
| "price_number No_price = None"

record product =
  pr_productId :: string
  pr_name :: string
  pr_category :: "string option"
  pr_price :: price
  pr_tags :: "string list option"
  pr_inStock :: bool
  pr_stockCount :: "int option"

text \<open>\<open>{ ...product, score }\<close>.\<close>

record scored = product +
  pr_score :: int

definition with_score :: "product \<Rightarrow> int \<Rightarrow> scored" where
  "with_score p sc = product.extend p \<lparr>pr_score = sc\<rparr>"

text \<open>\<open>Product.find({ inStock: true, stockCount: { $gt: 0 } })\<close> on the collection.\<close>

definition Product_find :: "product list \<Rightarrow> product list" where
  "Product_find collection =
     filter (\<lambda>p. pr_inStock p \<and> (case pr_stockCount p of None \<Rightarrow> False | Some n \<Rightarrow> n > 0))
            collection"

text \<open>\<open>product.stockCount || 0\<close>.\<close>

definition stock_or_0 :: "'a product_scheme \<Rightarrow> int" where
  "stock_or_0 p = (case pr_stockCount p of None \<Rightarrow> 0 | Some n \<Rightarrow> n)"

definition generateTagsFromIntent :: "intent \<Rightarrow> string list" where
  "generateTagsFromIntent parsedIntent =
     (let tags0 =
            (if truthy_opt (i_occasion parsedIntent) \<and> i_occasion parsedIntent \<noteq> Some ''other''
             then [capitalize (str_of (i_occasion parsedIntent))]
                  @ (if i_occasion parsedIntent = Some ''wedding'' then [''Wedding''] else [])
             else []);
          tags1 =
            (if truthy_opt (i_style parsedIntent)
             then tags0 @ [capitalize (str_of (i_style parsedIntent))]
             else tags0);
          tags2 =
            (if truthy_opt (i_season parsedIntent)
                \<and> i_season parsedIntent \<noteq> Some ''all-season''
             then tags1 @
                  [if i_season parsedIntent = Some ''summer'' then ''SummerWear''
                   else if i_season parsedIntent = Some ''winter'' then ''WinterWear''
                   else capitalize (str_of (i_season parsedIntent)) @ ''Wear'']
             else tags1);
          tags3 =
            (if i_urgency parsedIntent = Some ''today'' then tags2 @ [''Urgent''] else tags2);
          tags4 =
            (case i_budget parsedIntent of
               Some (Num n) \<Rightarrow>
                 if n > 300 then tags3 @ [''Premium'']
                 else if n < 100 then tags3 @ [''Budget'']
                 else tags3
             | _ \<Rightarrow> tags3)
      in tags4)"

text \<open>\<open>tag.toString().replace(/^#/, '')\<close>.\<close>

definition strip_hash :: "string \<Rightarrow> string" where
  "strip_hash tag = (case tag of [] \<Rightarrow> [] | c # cs \<Rightarrow> if c = CHR ''#'' then cs else tag)"

definition calculatePriceScore :: "price \<Rightarrow> budget option \<Rightarrow> int" where
  "calculatePriceScore productPrice budget =
     (case budget of
        Some (Num b) \<Rightarrow>
          if b > 0 then
            (case price_number productPrice of
               None \<Rightarrow> 0
             | Some price \<Rightarrow>
                 let priceDiff = price - of_int b;
                     percentOver = (priceDiff / of_int b) * 100
                 in if priceDiff \<le> 0 then 30
                    else if percentOver \<le> 10 then 20
                    else if percentOver \<le> 20 then 10
                    else 0)
          else 0
      | Some (Str s) \<Rightarrow> if s = ''flexible'' then 15 else 0
      | None \<Rightarrow> 0)"

definition calculateProductScore :: "product \<Rightarrow> intent \<Rightarrow> string list \<Rightarrow> bool \<Rightarrow> int" where
  "calculateProductScore product parsedIntent intentTags ignoreBudget =
     (let productTags =
            map toLowerCase (case pr_tags product of None \<Rightarrow> [] | Some ts \<Rightarrow> ts);
          normalizedIntentTags = map toLowerCase intentTags;
          matchingTags = filter (\<lambda>tag. tag \<in> set productTags) normalizedIntentTags;
          tagScore = min 40 (int (length matchingTags) * 10);
          priceScore =
            (if \<not> ignoreBudget
             then calculatePriceScore (pr_price product) (i_budget parsedIntent) else 0);
          stockCount = stock_or_0 product;
          stockScore =
            (if stockCount > 5 then 20
             else if stockCount \<ge> 3 then 15
             else if stockCount \<ge> 1 then 10
             else 0)
      in tagScore + priceScore + stockScore)"

text \<open>
  The comparator of every \<open>sort\<close> call: higher score first, then higher stock count.
  \<open>Array.prototype.sort\<close> is stable, so it is an insertion sort that keeps equal elements
  in their order.
\<close>

definition compare_scored :: "scored \<Rightarrow> scored \<Rightarrow> int" where
  "compare_scored a b =
     (if pr_score b \<noteq> pr_score a then pr_score b - pr_score a
      else stock_or_0 b - stock_or_0 a)"

fun insert_scored :: "scored \<Rightarrow> scored list \<Rightarrow> scored list" where
  "insert_scored x [] = [x]"
| "insert_scored x (y # ys) =
     (if compare_scored x y \<le> 0 then x # y # ys else y # insert_scored x ys)"

fun sort_scored :: "scored list \<Rightarrow> scored list" where
  "sort_scored [] = []"
| "sort_scored (x # xs) = insert_scored x (sort_scored xs)"

text \<open>
  \<open>xs.slice(0, n)\<close> for an integer \<open>n\<close>: a negative \<open>n\<close> counts from the end of the
  array.
\<close>

definition slice0 :: "'a list \<Rightarrow> int \<Rightarrow> 'a list" where
  "slice0 xs n =
     (if n < 0 then take (nat (int (length xs) + n)) xs else take (nat n) xs)"

text \<open>
  The loop of \<open>applyCategoryDiversity\<close>, with the set of selected categories and the
  result built so far as its state.
\<close>

fun diversity_loop :: "string list \<Rightarrow> scored list \<Rightarrow> int \<Rightarrow> scored list \<Rightarrow> scored list" where
  "diversity_loop selectedCategories result limit [] = result"
| "diversity_loop selectedCategories result limit (product # products) =
     (let category =
            (case pr_category product of
               None \<Rightarrow> ''Unknown''
             | Some c \<Rightarrow> if falsy c then ''Unknown'' else c);
          isNewCategory = category \<notin> set selectedCategories
      in if isNewCategory \<and> int (length result) < limit
         then diversity_loop (category # selectedCategories)
                (result @ [product\<lparr>pr_score := pr_score product + 10\<rparr>]) limit products
         else diversity_loop selectedCategories (result @ [product]) limit products)"

definition applyCategoryDiversity :: "scored list \<Rightarrow> int \<Rightarrow> scored list" where
  "applyCategoryDiversity products limit =
     slice0 (sort_scored (diversity_loop [] [] limit products)) limit"

definition generateExplanation :: "scored \<Rightarrow> intent \<Rightarrow> string" where
  "generateExplanation product parsedIntent =
     (let reasons0 =
            (if truthy_opt (i_style parsedIntent)
             then [str_of (i_style parsedIntent) @ '' style''] else []);
          reasons1 =
            (if truthy_opt (i_occasion parsedIntent)
                \<and> i_occasion parsedIntent \<noteq> Some ''other''
             then reasons0 @ [''suitable for '' @ str_of (i_occasion parsedIntent)
                               @ '' occasions'']
             else reasons0);
          reasons2 =
            (if truthy_opt (i_season parsedIntent)
                \<and> i_season parsedIntent \<noteq> Some ''all-season''
             then reasons1 @ [''perfect for '' @ str_of (i_season parsedIntent)]
             else reasons1);
          reasons3 =
            (case i_budget parsedIntent of
               Some (Num b) \<Rightarrow>
                 (case price_number (pr_price product) of
                    None \<Rightarrow> reasons2
                  | Some price \<Rightarrow>
                      let priceDiff = price - of_int b in
                      if priceDiff \<le> 0
                      then reasons2 @ [''within your $'' @ show_int b @ '' budget'']
                      else if priceDiff \<le> of_int b * (1 / 10)
                      then reasons2 @ [''slightly over budget but great value'']
                      else reasons2)
             | _ \<Rightarrow> reasons2);
          reasons4 =
            (if (case pr_stockCount product of None \<Rightarrow> False | Some n \<Rightarrow> n > 5)
             then reasons3 @ [''in stock and ready''] else reasons3);
          explanation = ''This '' @ pr_name product
      in if length reasons4 > 0
         then (if length reasons4 = 1
               then explanation @ '' matches your '' @ hd reasons4
               else if length reasons4 = 2
               then explanation @ '' matches your '' @ hd reasons4 @ '' and is ''
                      @ hd (tl reasons4)
               else explanation @ '' matches your '' @ hd reasons4 @ '' and is ''
                      @ join_comma (tl reasons4))
              @ ''.''
         else explanation @ '' is a great option for you.'')"

record recommendations =
  r_products :: "scored list"
  r_explanations :: "string list"
  r_confidence :: rat

definition no_recommendations :: recommendations where
  "no_recommendations = \<lparr>r_products = [], r_explanations = [], r_confidence = 0\<rparr>"

text \<open>
  The first argument of \<open>getRecommendations\<close>: \<open>null\<close>, \<open>undefined\<close> or a value that is
  not an object, or an intent object.
\<close>

datatype intent_arg = Not_an_object | Intent intent

definition score_all :: "product list \<Rightarrow> intent \<Rightarrow> string list \<Rightarrow> bool \<Rightarrow> scored list" where
  "score_all products parsedIntent intentTags ignoreBudget =
     map (\<lambda>product. with_score product
            (calculateProductScore product parsedIntent intentTags ignoreBudget)) products"

text \<open>
  The body of the \<open>try\<close> block once the intent is known to be an object. \<open>found\<close> is the
  outcome of the \<open>Product.find\<close> query, which throws when the database fails.
\<close>

definition recommend_try ::
  "intent \<Rightarrow> int \<Rightarrow> js_error + product list \<Rightarrow> js_error + recommendations" where
  "recommend_try parsedIntent limit found =
     (let intentTags =
            (case i_tags parsedIntent of
               Some tags \<Rightarrow> map strip_hash tags
             | None \<Rightarrow> generateTagsFromIntent parsedIntent)
      in case found of
           Inl err \<Rightarrow> Inl err
         | Inr products \<Rightarrow>
             if length products = 0 then Inr no_recommendations
             else
               let scoredProducts = score_all products parsedIntent intentTags False;
                   filteredProducts0 =
                     sort_scored (filter (\<lambda>p. pr_score p \<ge> 20) scoredProducts);
                   filteredProducts =
                     (if length filteredProducts0 < 3
                         \<and> (case i_budget parsedIntent of Some (Num b) \<Rightarrow> True | _ \<Rightarrow> False)
                      then sort_scored (filter (\<lambda>p. pr_score p \<ge> 20)
                             (score_all products parsedIntent intentTags True))
                      else filteredProducts0);
                   diverseProducts = applyCategoryDiversity filteredProducts limit;
                   topProducts = slice0 diverseProducts limit;
                   explanations =
                     map (\<lambda>product. generateExplanation product parsedIntent) topProducts;
                   avgScore =
                     (if length topProducts > 0
                      then of_int (sum_list (map pr_score topProducts))
                             / of_nat (length topProducts)
                      else (0 :: rat));
                   confidence = min 1 (avgScore / 100)
               in Inr \<lparr>r_products = topProducts, r_explanations = explanations,
                        r_confidence = confidence\<rparr>)"

text \<open>\<open>getRecommendations\<close>: the guard on the intent, the \<open>try\<close> block and its \<open>catch\<close>.\<close>

definition getRecommendations ::
  "intent_arg \<Rightarrow> int \<Rightarrow> js_error + product list \<Rightarrow> recommendations" where
  "getRecommendations parsedIntent limit found =
     (case parsedIntent of
        Not_an_object \<Rightarrow> no_recommendations
      | Intent i \<Rightarrow>
          (case recommend_try i limit found of
             Inl err \<Rightarrow> no_recommendations
           | Inr r \<Rightarrow> r))"

text \<open>
  A small catalogue of three products in stock, each scoring at least 20 for any intent.
\<close>

definition demo_product :: "string \<Rightarrow> string \<Rightarrow> product" where
  "demo_product ident cat =
     \<lparr>pr_productId = ident, pr_name = ident, pr_category = Some cat, pr_price = Price 50,
      pr_tags = Some [], pr_inStock = True, pr_stockCount = Some 10\<rparr>"

definition demo_catalog :: "product list" where
  "demo_catalog =
     [demo_product ''P001'' ''Blazers'', demo_product ''P002'' ''Shirts'',
      demo_product ''P003'' ''Shoes'']"

section \<open>Sessions, the connection registry and the handlers\<close>

subsection \<open>The Session document (models/Session.js)\<close>

datatype status = Active | Transferred | Expired

record session =
  s_sessionId :: string
  s_userId :: string
  s_conversationHistory :: "message list"
  s_parsedIntent :: intent
  s_tags :: "string list"
  s_qrCode :: "string option"
  s_qrExpiry :: "int option"
  s_status :: status

text \<open>
  The \<open>trim\<close> setters of the schema are not modelled: a string is stored as it is
  given, which is what the setters do to an id or a text without leading or trailing white
  space. The \<open>required\<close> validators then hold for every document the handlers build,
  since the handlers refuse empty ids and messages.

  \<open>new Session({ sessionId, userId, conversationHistory: [], parsedIntent: {}, tags: [],
  status: 'active' })\<close>; the schema defaults \<open>qrCode\<close> and \<open>qrExpiry\<close> to \<open>null\<close>.
\<close>

definition new_session :: "string \<Rightarrow> string \<Rightarrow> session" where
  "new_session sessionId userId =
     \<lparr>s_sessionId = sessionId, s_userId = userId, s_conversationHistory = [],
      s_parsedIntent = empty_intent, s_tags = [], s_qrCode = None, s_qrExpiry = None,
      s_status = Active\<rparr>"

text \<open>
  \<open>session.parsedIntent = parsedIntent\<close> casts the object to the sub-document of the
  schema, whose paths are occasion, style, budget, urgency and preferences: the season of
  the parsed intent is not a path and is dropped. A budget that does not cast to a number
  is kept until \<open>save\<close> reports it (\<open>budget_valid\<close> below).
\<close>

definition schema_cast :: "intent \<Rightarrow> intent" where
  "schema_cast parsedIntent = parsedIntent\<lparr>i_season := None, i_tags := None\<rparr>"

text \<open>
  \<open>Array.from(new Set(xs))\<close>: the elements of \<open>xs\<close> in the order of their first
  occurrence. \<open>set_from acc xs\<close> adds the elements of \<open>xs\<close> to a set that already holds
  \<open>acc\<close>.
\<close>

fun set_from :: "'a list \<Rightarrow> 'a list \<Rightarrow> 'a list" where
  "set_from acc [] = acc"
| "set_from acc (x # xs) =
     (if x \<in> set acc then set_from acc xs else set_from (acc @ [x]) xs)"

text \<open>\<open>Array.from(new Set([...existingTags, ...newTags]))\<close>.\<close>

definition merge_tags :: "string list \<Rightarrow> string list \<Rightarrow> string list" where
  "merge_tags existingTags newTags = set_from [] (existingTags @ newTags)"

subsection \<open>The state of the server\<close>

text \<open>
  The Session collection is keyed by \<open>sessionId\<close> (a unique index); \<open>save\<close> writes the
  document back under the key it was found or created with. \<open>qr_redis\<close> is the store of
  the token service, \<open>socket_redis\<close> the client of the socket manager (\<open>null\<close> when no
  Redis URL is configured). A namespace is the set of the ids of its connected sockets,
  \<open>None\<close> before it is set up.
\<close>

record system =
  sessions :: "string \<rightharpoonup> session"
  catalog :: "product list"
  qr_redis :: qr_store
  socket_redis :: "(string \<rightharpoonup> string) option"
  mobileNamespace :: "string set option"
  kioskNamespace :: "string set option"

text \<open>
  What the environment contributes to one request: the clock, the identifier \<open>uuidv4()\<close>
  draws, whether the database calls (\<open>Session.findOne\<close>, \<open>session.save\<close>,
  \<open>Session.deleteOne\<close>, \<open>Product.find\<close>, \<open>Product.findOne\<close>) reach the database, and
  the message of the error a failing call throws.
\<close>

record io =
  io_now :: int
  io_uuid :: string
  io_find_ok :: bool
  io_save_ok :: bool
  io_products_ok :: bool
  io_error :: string

definition product_query :: "io \<Rightarrow> system \<Rightarrow> js_error + product list" where
  "product_query e sys =
     (if io_products_ok e then Inr (Product_find (catalog sys))
      else Inl (Error (io_error e)))"

text \<open>
  \<open>session.save()\<close> validates the document against the schema before it writes. The
  \<open>parsedIntent\<close> sub-document declares \<open>budget: { type: Number, min: 0 }\<close>, so an
  intent whose budget is a text is rejected (the only text the extractor yields is
  \<open>'flexible'\<close>, which is not a number), as is a negative amount. So the message path
  stores nothing when neither the message nor the earlier messages of the user hold an
  amount or a budget word: the budget is then \<open>'flexible'\<close>. The message path is the only writer of \<open>parsedIntent\<close>; the other
  handlers save a document whose intent is the one it was loaded with, and for them
  \<open>io_save_ok\<close> alone decides.
\<close>

definition budget_valid :: "intent \<Rightarrow> bool" where
  "budget_valid parsedIntent =
     (case i_budget parsedIntent of
        None \<Rightarrow> True
      | Some (Num n) \<Rightarrow> 0 \<le> n
      | Some (Str s) \<Rightarrow> False)"

definition save_resolves :: "io \<Rightarrow> session \<Rightarrow> bool" where
  "save_resolves e doc = (io_save_ok e \<and> budget_valid (s_parsedIntent doc))"

text \<open>\<open>error.message\<close> and \<open>error.message || 'Internal server error'\<close>.\<close>

fun message_of :: "js_error \<Rightarrow> string" where
  "message_of (Error m) = m"
| "message_of RangeError = ''Input buffers must have the same byte length''"

definition error_text :: "string \<Rightarrow> string" where
  "error_text m = (if falsy m then ''Internal server error'' else m)"

subsection \<open>What the handlers emit\<close>

text \<open>
  \<open>Mobile_error\<close> and \<open>Kiosk_error\<close> carry \<open>{ message }\<close>; \<open>Mobile_failure\<close> and
  \<open>Kiosk_failure\<close> are the same events as a \<open>catch\<close> emits them, with
  \<open>{ message, error }\<close>. \<open>Http_error\<close> is a status with the \<open>error\<close> text of the body.
\<close>

datatype event =
    Mobile_error string
  | Mobile_failure string string
  | Mobile_aiResponse string intent "string list" "scored list"
  | Mobile_qrGenerated string qr_image int string
  | Mobile_identified string string
  | Mobile_sessionTransferred string string string
  | Kiosk_identified string string
  | Kiosk_invalidQR string
  | Kiosk_sessionData session "scored list" "string list" rat
  | Kiosk_error string
  | Kiosk_failure string string
  | Kiosk_associateRequested string string string
  | Http_error nat string
  | Http_chat string string intent "string list" "scored list"
  | Http_session session
  | Http_deleted string
  | Http_qr string qr_image int string
  | Http_validated session
  | Http_expired string bool

subsection \<open>The connection registry (socketManager.js)\<close>

definition SOCKET_KEY_PREFIX :: string where
  "SOCKET_KEY_PREFIX = ''socket:''"

definition MOBILE_PREFIX :: string where
  "MOBILE_PREFIX = SOCKET_KEY_PREFIX @ ''mobile:''"

definition KIOSK_PREFIX :: string where
  "KIOSK_PREFIX = SOCKET_KEY_PREFIX @ ''kiosk:''"

text \<open>\<open>if (redis) await redis.set(key, socket.id)\<close>.\<close>

definition registry_set :: "string \<Rightarrow> string \<Rightarrow> system \<Rightarrow> system" where
  "registry_set key socket_id sys =
     (case socket_redis sys of
        None \<Rightarrow> sys
      | Some r \<Rightarrow> sys\<lparr>socket_redis := Some (r(key \<mapsto> socket_id))\<rparr>)"

definition getSocketByUserId :: "system \<Rightarrow> string option \<Rightarrow> string \<Rightarrow> string option" where
  "getSocketByUserId sys userId namespace =
     (case (socket_redis sys, mobileNamespace sys, kioskNamespace sys) of
        (Some redis, Some mobile, Some kiosk) \<Rightarrow>
          if falsy_opt userId then None
          else
            let namespaceInstance = (if namespace = ''mobile'' then mobile else kiosk);
                key = (if namespace = ''mobile'' then MOBILE_PREFIX @ str_of userId
                       else KIOSK_PREFIX @ str_of userId)
            in (case redis key of
                  None \<Rightarrow> None
                | Some socketId \<Rightarrow>
                    if falsy socketId then None
                    else if socketId \<in> namespaceInstance then Some socketId
                    else None)
      | _ \<Rightarrow> None)"

definition mobile_identify :: "string \<Rightarrow> string option \<Rightarrow> system \<Rightarrow> event list \<times> system" where
  "mobile_identify socket_id userId sys =
     (if \<not> falsy_opt userId \<and> socket_redis sys \<noteq> None
      then ([Mobile_identified (str_of userId) socket_id],
            registry_set (MOBILE_PREFIX @ str_of userId) socket_id sys)
      else ([], sys))"

definition kiosk_identify :: "string \<Rightarrow> string option \<Rightarrow> system \<Rightarrow> event list \<times> system" where
  "kiosk_identify socket_id kioskId sys =
     (if \<not> falsy_opt kioskId \<and> socket_redis sys \<noteq> None
      then ([Kiosk_identified (str_of kioskId) socket_id],
            registry_set (KIOSK_PREFIX @ str_of kioskId) socket_id sys)
      else ([], sys))"

text \<open>
  The \<open>disconnect\<close> handlers: the keys of the namespace are scanned in the order
  \<open>redis.keys\<close> returned them, and the first one that holds this socket id is deleted.
\<close>

fun delete_first :: "string list \<Rightarrow> string \<Rightarrow> (string \<rightharpoonup> string) \<Rightarrow> (string \<rightharpoonup> string)" where
  "delete_first [] socket_id r = r"
| "delete_first (key # keys) socket_id r =
     (if r key = Some socket_id then r(key := None) else delete_first keys socket_id r)"

definition disconnect :: "string list \<Rightarrow> string \<Rightarrow> system \<Rightarrow> event list \<times> system" where
  "disconnect keys socket_id sys =
     (case socket_redis sys of
        None \<Rightarrow> ([], sys)
      | Some r \<Rightarrow> ([], sys\<lparr>socket_redis := Some (delete_first keys socket_id r)\<rparr>))"

subsection \<open>The message path\<close>

text \<open>
  The part shared by the \<open>mobile:message\<close> handler and \<open>POST /api/chat/message\<close>:
  fetch or create the session, append the user's message, parse it, and set the intent and
  the merged tags.
\<close>

definition fetch_or_create :: "system \<Rightarrow> string \<Rightarrow> string \<Rightarrow> session" where
  "fetch_or_create sys sessionId userId =
     (case sessions sys sessionId of
        None \<Rightarrow> new_session sessionId userId
      | Some found \<Rightarrow> found)"

definition apply_message :: "io \<Rightarrow> string \<Rightarrow> string \<Rightarrow> string \<Rightarrow> system \<Rightarrow> parsed \<times> session" where
  "apply_message e sessionId userId message sys =
     (let session0 = fetch_or_create sys sessionId userId;
          history = s_conversationHistory session0
                      @ [\<lparr>m_text = message, m_sender = ''user'', m_timestamp = io_now e\<rparr>];
          parsed = parseUserMessage message history;
          parsedIntent = pa_intent parsed;
          newTags = pa_tags parsed;
          existingTags = s_tags session0
      in (parsed,
          session0\<lparr>s_conversationHistory := history,
                   s_parsedIntent := schema_cast parsedIntent,
                   s_tags := merge_tags existingTags newTags\<rparr>))"

text \<open>\<open>parsed.summary || 'Got it. I will keep this in mind.'\<close>.\<close>

definition response_text :: "parsed \<Rightarrow> string" where
  "response_text parsed =
     (if falsy (pa_summary parsed) then ''Got it. I will keep this in mind.''
      else pa_summary parsed)"

definition mobile_message ::
  "io \<Rightarrow> string \<Rightarrow> string option \<Rightarrow> string option \<Rightarrow> string option \<Rightarrow> system
     \<Rightarrow> event list \<times> system" where
  "mobile_message e socket_id sessionId userId message sys =
     (if falsy_opt sessionId \<or> falsy_opt userId \<or> falsy_opt message
      then ([Mobile_error ''sessionId, userId, and message are required''], sys)
      else
        let sys1 = registry_set (MOBILE_PREFIX @ str_of userId) socket_id sys in
        if \<not> io_find_ok e
        then ([Mobile_failure ''Error processing message'' (io_error e)], sys1)
        else
          let (parsed, session1) =
                apply_message e (str_of sessionId) (str_of userId) (str_of message) sys1;
              recommendations =
                getRecommendations (Intent (pa_intent parsed)) 3 (product_query e sys1)
          in if \<not> save_resolves e session1
             then ([Mobile_failure ''Error processing message'' (io_error e)], sys1)
             else
               ([Mobile_aiResponse (response_text parsed) (pa_intent parsed)
                   (s_tags session1) (r_products recommendations)],
                sys1\<lparr>sessions := (sessions sys1)(str_of sessionId \<mapsto> session1)\<rparr>))"

text \<open>\<open>message.trim().length === 0\<close>.\<close>

definition blank :: "string \<Rightarrow> bool" where
  "blank s = (\<forall>c \<in> set s. is_space c)"

definition api_chat_message ::
  "io \<Rightarrow> string option \<Rightarrow> string option \<Rightarrow> string option \<Rightarrow> system
     \<Rightarrow> event list \<times> system" where
  "api_chat_message e sessionId userId message sys =
     (if falsy_opt sessionId \<or> falsy_opt userId \<or> falsy_opt message
      then ([Http_error 400 ''sessionId, userId, and message are required''], sys)
      else if blank (str_of message)
      then ([Http_error 400 ''message must be a non-empty string''], sys)
      else if \<not> io_find_ok e then ([Http_error 500 (error_text (io_error e))], sys)
      else
        let (parsed, session1) =
              apply_message e (str_of sessionId) (str_of userId) (str_of message) sys;
            recommendationsResult =
              getRecommendations (Intent (pa_intent parsed)) 3 (product_query e sys);
            aiResponseText = response_text parsed;
            session2 =
              session1\<lparr>s_conversationHistory :=
                s_conversationHistory session1
                  @ [\<lparr>m_text = aiResponseText, m_sender = ''ai'', m_timestamp = io_now e\<rparr>]\<rparr>
        in if \<not> save_resolves e session2
           then ([Http_error 500 (error_text (io_error e))], sys)
           else
             ([Http_chat (s_sessionId session2) aiResponseText (pa_intent parsed)
                 (s_tags session2) (r_products recommendationsResult)],
              sys\<lparr>sessions := (sessions sys)(str_of sessionId \<mapsto> session2)\<rparr>))"

definition api_session_get :: "io \<Rightarrow> string \<Rightarrow> system \<Rightarrow> event list \<times> system" where
  "api_session_get e sessionId sys =
     (if falsy sessionId then ([Http_error 400 ''sessionId is required''], sys)
      else if \<not> io_find_ok e then ([Http_error 500 (error_text (io_error e))], sys)
      else
        case sessions sys sessionId of
          None \<Rightarrow> ([Http_error 404 ''Session not found''], sys)
        | Some found \<Rightarrow> ([Http_session found], sys))"

definition api_session_delete :: "io \<Rightarrow> string \<Rightarrow> system \<Rightarrow> event list \<times> system" where
  "api_session_delete e sessionId sys =
     (if falsy sessionId then ([Http_error 400 ''sessionId is required''], sys)
      else if \<not> io_save_ok e then ([Http_error 500 (error_text (io_error e))], sys)
      else
        case sessions sys sessionId of
          None \<Rightarrow> ([Http_error 404 ''Session not found''], sys)
        | Some found \<Rightarrow>
            ([Http_deleted sessionId], sys\<lparr>sessions := (sessions sys)(sessionId := None)\<rparr>))"

subsection \<open>Requesting a transfer\<close>

text \<open>
  The \<open>mobile:generateQR\<close> handler issues the token first and then updates the session
  if there is one.
\<close>

definition mobile_generateQR ::
  "keyed_digest \<Rightarrow> string option \<Rightarrow> io \<Rightarrow> string option \<Rightarrow> system \<Rightarrow> event list \<times> system" where
  "mobile_generateQR hmac secret e sessionId sys =
     (if falsy_opt sessionId then ([Mobile_error ''sessionId is required''], sys)
      else
        case generateQR hmac secret (io_uuid e) (io_now e) (qr_redis sys) (str_of sessionId) of
          Inl err \<Rightarrow> ([Mobile_failure ''Error generating QR code'' (message_of err)], sys)
        | Inr (qrData, store') \<Rightarrow>
            let sys1 = sys\<lparr>qr_redis := store'\<rparr>;
                reply = Mobile_qrGenerated (qr_qrId qrData) (qr_qrImage qrData)
                          (qr_expiresAt qrData) (qr_signature qrData)
            in if \<not> io_find_ok e
               then ([Mobile_failure ''Error generating QR code'' (io_error e)], sys1)
               else
                 case sessions sys1 (str_of sessionId) of
                   None \<Rightarrow> ([reply], sys1)
                 | Some found \<Rightarrow>
                     if \<not> io_save_ok e
                     then ([Mobile_failure ''Error generating QR code'' (io_error e)], sys1)
                     else
                       ([reply],
                        sys1\<lparr>sessions := (sessions sys1)(str_of sessionId \<mapsto>
                                found\<lparr>s_qrCode := Some (qr_qrId qrData),
                                       s_qrExpiry := Some (qr_expiresAt qrData)\<rparr>)\<rparr>))"

text \<open>\<open>POST /api/qr/generate\<close> checks that the session exists before it issues the token.\<close>

definition api_qr_generate ::
  "keyed_digest \<Rightarrow> string option \<Rightarrow> io \<Rightarrow> string option \<Rightarrow> system \<Rightarrow> event list \<times> system" where
  "api_qr_generate hmac secret e sessionId sys =
     (if falsy_opt sessionId then ([Http_error 400 ''sessionId is required''], sys)
      else if \<not> io_find_ok e then ([Http_error 500 (error_text (io_error e))], sys)
      else
        case sessions sys (str_of sessionId) of
          None \<Rightarrow> ([Http_error 404 ''Session not found''], sys)
        | Some found \<Rightarrow>
            (case generateQR hmac secret (io_uuid e) (io_now e) (qr_redis sys)
                    (str_of sessionId) of
               Inl err \<Rightarrow> ([Http_error 500 (error_text (message_of err))], sys)
             | Inr (qrData, store') \<Rightarrow>
                 let sys1 = sys\<lparr>qr_redis := store'\<rparr> in
                 if \<not> io_save_ok e
                 then ([Http_error 500 (error_text (io_error e))], sys1)
                 else
                   ([Http_qr (qr_qrId qrData) (qr_qrImage qrData) (qr_expiresAt qrData)
                       (qr_signature qrData)],
                    sys1\<lparr>sessions := (sessions sys1)(str_of sessionId \<mapsto>
                            found\<lparr>s_qrCode := Some (qr_qrId qrData),
                                   s_qrExpiry := Some (qr_expiresAt qrData)\<rparr>)\<rparr>)))"

subsection \<open>Completing a transfer\<close>

definition kiosk_scanQR ::
  "keyed_digest \<Rightarrow> string option \<Rightarrow> io \<Rightarrow> string \<Rightarrow> string option \<Rightarrow> string option
     \<Rightarrow> string option \<Rightarrow> system \<Rightarrow> event list \<times> system" where
  "kiosk_scanQR hmac secret e socket_id qrId signature kioskId sys =
     (if falsy_opt qrId \<or> falsy_opt signature
      then ([Kiosk_invalidQR ''qrId and signature are required''], sys)
      else
        let sys1 = (if \<not> falsy_opt kioskId
                    then registry_set (KIOSK_PREFIX @ str_of kioskId) socket_id sys else sys);
            (sessionId, store') =
              validateQR hmac secret (io_now e) (qr_redis sys1) (str_of qrId) (str_of signature);
            sys2 = sys1\<lparr>qr_redis := store'\<rparr>
        in if falsy_opt sessionId then ([Kiosk_invalidQR ''Invalid or expired QR code''], sys2)
           else if \<not> io_find_ok e
           then ([Kiosk_failure ''Error processing QR code'' (io_error e)], sys2)
           else
             case sessions sys2 (str_of sessionId) of
               None \<Rightarrow> ([Kiosk_invalidQR ''Session not found''], sys2)
             | Some found \<Rightarrow>
                 if \<not> io_save_ok e
                 then ([Kiosk_failure ''Error processing QR code'' (io_error e)], sys2)
                 else
                   let session1 = found\<lparr>s_status := Transferred\<rparr>;
                       sys3 = sys2\<lparr>sessions := (sessions sys2)(str_of sessionId \<mapsto> session1)\<rparr>;
                       recommendations =
                         getRecommendations (Intent (s_parsedIntent session1)) 5
                           (product_query e sys3);
                       sessionData =
                         Kiosk_sessionData session1 (r_products recommendations)
                           (r_explanations recommendations) (r_confidence recommendations);
                       notice =
                         (if \<not> falsy (s_userId session1) \<and> mobileNamespace sys3 \<noteq> None
                          then (case getSocketByUserId sys3 (Some (s_userId session1))
                                       ''mobile'' of
                                  None \<Rightarrow> []
                                | Some mobileSocket \<Rightarrow>
                                    [Mobile_sessionTransferred mobileSocket
                                       (s_sessionId session1)
                                       (if falsy_opt kioskId then ''unknown''
                                        else str_of kioskId)])
                          else [])
                   in (sessionData # notice, sys3))"

text \<open>\<open>POST /api/qr/validate\<close> consumes the token and reads the session.\<close>

definition api_qr_validate ::
  "keyed_digest \<Rightarrow> string option \<Rightarrow> io \<Rightarrow> string option \<Rightarrow> string option \<Rightarrow> system
     \<Rightarrow> event list \<times> system" where
  "api_qr_validate hmac secret e qrId signature sys =
     (if falsy_opt qrId \<or> falsy_opt signature
      then ([Http_error 400 ''qrId and signature are required''], sys)
      else
        let (sessionId, store') =
              validateQR hmac secret (io_now e) (qr_redis sys) (str_of qrId) (str_of signature);
            sys1 = sys\<lparr>qr_redis := store'\<rparr>
        in if falsy_opt sessionId then ([Http_error 400 ''Invalid or expired QR code''], sys1)
           else if \<not> io_find_ok e then ([Http_error 500 (error_text (io_error e))], sys1)
           else
             case sessions sys1 (str_of sessionId) of
               None \<Rightarrow> ([Http_error 404 ''Session not found''], sys1)
             | Some found \<Rightarrow> ([Http_validated found], sys1))"

definition api_qr_expire :: "io \<Rightarrow> string \<Rightarrow> system \<Rightarrow> event list \<times> system" where
  "api_qr_expire e qrId sys =
     (if falsy qrId then ([Http_error 400 ''qrId is required''], sys)
      else
        let (deleted, store') = expireQR (qr_redis sys) (io_now e) qrId
        in ([Http_expired qrId deleted], sys\<lparr>qr_redis := store'\<rparr>))"

subsection \<open>Requesting an associate\<close>

text \<open>\<open>Product.findOne({ productId })\<close> on the collection.\<close>

definition Product_findOne :: "product list \<Rightarrow> string \<Rightarrow> product option" where
  "Product_findOne collection productId =
     (case filter (\<lambda>p. pr_productId p = productId) collection of
        [] \<Rightarrow> None
      | p # ps \<Rightarrow> Some p)"

definition kiosk_requestAssociate ::
  "io \<Rightarrow> string option \<Rightarrow> string option \<Rightarrow> system \<Rightarrow> event list \<times> system" where
  "kiosk_requestAssociate e sessionId productId sys =
     (if falsy_opt sessionId \<or> falsy_opt productId
      then ([Kiosk_error ''sessionId and productId are required''], sys)
      else if \<not> io_find_ok e \<or> \<not> io_products_ok e
      then ([Kiosk_failure ''Error processing associate request'' (io_error e)], sys)
      else
        case (sessions sys (str_of sessionId),
              Product_findOne (catalog sys) (str_of productId)) of
          (Some found, Some product) \<Rightarrow>
            ([Kiosk_associateRequested (str_of sessionId) (str_of productId)
                (pr_name product)], sys)
        | _ \<Rightarrow> ([Kiosk_error ''Session or product not found''], sys))"

subsection \<open>Requests\<close>

text \<open>
  The requests the server handles, socket events and routes, with their inputs. The
  periodic sweeper only deletes token entries whose time-to-live has run out, which
  \<open>redis_get\<close> already treats as absent.
\<close>

datatype request =
    MobileMessage string "string option" "string option" "string option"
  | MobileGenerateQR "string option"
  | MobileIdentify string "string option"
  | MobileDisconnect "string list" string
  | KioskIdentify string "string option"
  | KioskScanQR string "string option" "string option" "string option"
  | KioskRequestAssociate "string option" "string option"
  | KioskDisconnect "string list" string
  | ApiChatMessage "string option" "string option" "string option"
  | ApiSessionGet string
  | ApiSessionDelete string
  | ApiQrGenerate "string option"
  | ApiQrValidate "string option" "string option"
  | ApiQrExpire string

fun step :: "keyed_digest \<Rightarrow> string option \<Rightarrow> io \<Rightarrow> request \<Rightarrow> system \<Rightarrow> event list \<times> system" where
  "step hmac secret e (MobileMessage socket_id sessionId userId message) sys =
     mobile_message e socket_id sessionId userId message sys"
| "step hmac secret e (MobileGenerateQR sessionId) sys =
     mobile_generateQR hmac secret e sessionId sys"
| "step hmac secret e (MobileIdentify socket_id userId) sys =
     mobile_identify socket_id userId sys"
| "step hmac secret e (MobileDisconnect keys socket_id) sys = disconnect keys socket_id sys"
| "step hmac secret e (KioskIdentify socket_id kioskId) sys =
     kiosk_identify socket_id kioskId sys"
| "step hmac secret e (KioskScanQR socket_id qrId signature kioskId) sys =
     kiosk_scanQR hmac secret e socket_id qrId signature kioskId sys"
| "step hmac secret e (KioskRequestAssociate sessionId productId) sys =
     kiosk_requestAssociate e sessionId productId sys"
| "step hmac secret e (KioskDisconnect keys socket_id) sys = disconnect keys socket_id sys"
| "step hmac secret e (ApiChatMessage sessionId userId message) sys =
     api_chat_message e sessionId userId message sys"
| "step hmac secret e (ApiSessionGet sessionId) sys = api_session_get e sessionId sys"
| "step hmac secret e (ApiSessionDelete sessionId) sys = api_session_delete e sessionId sys"
| "step hmac secret e (ApiQrGenerate sessionId) sys =
     api_qr_generate hmac secret e sessionId sys"
| "step hmac secret e (ApiQrValidate qrId signature) sys =
     api_qr_validate hmac secret e qrId signature sys"
| "step hmac secret e (ApiQrExpire qrId) sys = api_qr_expire e qrId sys"

text \<open>The tags a session has before a request: none if there is no such session.\<close>

definition tags_before :: "system \<Rightarrow> string \<Rightarrow> string list" where
  "tags_before sys sid = (case sessions sys sid of None \<Rightarrow> [] | Some s \<Rightarrow> s_tags s)"

text \<open>The two requests of the message path.\<close>

fun message_request :: "request \<Rightarrow> bool" where
  "message_request (MobileMessage socket_id sessionId userId message) = True"
| "message_request (ApiChatMessage sessionId userId message) = True"
| "message_request other = False"

text \<open>A run of requests, each with its own environment inputs.\<close>

fun run :: "keyed_digest \<Rightarrow> string option \<Rightarrow> (io \<times> request) list \<Rightarrow> system \<Rightarrow> system" where
  "run hmac secret [] sys = sys"
| "run hmac secret ((e, req) # rest) sys = run hmac secret rest (snd (step hmac secret e req sys))"

text \<open>A server with one transferred session and one active session, and a quiet environment.\<close>

definition demo_io :: io where
  "demo_io = \<lparr>io_now = demo_issued, io_uuid = demo_uuid, io_find_ok = True,
              io_save_ok = True, io_products_ok = True, io_error = []\<rparr>"

definition demo_session :: session where
  "demo_session = new_session ''S1'' ''u1''"

definition demo_system :: system where
  "demo_system =
     \<lparr>sessions = [''S1'' \<mapsto> demo_session,
                  ''S2'' \<mapsto> (new_session ''S2'' ''u2'')\<lparr>s_status := Transferred\<rparr>],
      catalog = demo_catalog, qr_redis = Map.empty, socket_redis = Some Map.empty,
      mobileNamespace = Some {''handleA'', ''handleB''}, kioskNamespace = Some {}\<rparr>"

text \<open>
  The same server after the \<open>mobile:generateQR\<close> request for \<open>S1\<close>, and the
  environment one second later.
\<close>

definition demo_handoff :: system where
  "demo_handoff =
     demo_system\<lparr>qr_redis := demo_store,
        sessions := (sessions demo_system)(''S1'' \<mapsto>
           demo_session\<lparr>s_qrCode := Some demo_uuid,
                         s_qrExpiry := Some (demo_issued + 300000)\<rparr>)\<rparr>"

definition demo_io_later :: io where
  "demo_io_later = demo_io\<lparr>io_now := demo_issued + 1000\<rparr>"

section \<open>Properties of the token service\<close>


lemma unhex_lower: "unhex c = Some n \<Longrightarrow> n < 16 \<and> ascii_lower c = hex_digit n"
  by (auto simp: unhex_def ascii_lower_def hex_digit_def Let_def split: if_splits)

lemma lower_unhex: "n < 16 \<Longrightarrow> ascii_lower c = hex_digit n \<Longrightarrow> unhex c = Some n"
  by (auto simp: unhex_def ascii_lower_def hex_digit_def Let_def char_of_eq_iff take_bit_eq_mod split: if_splits)

lemma unat_byte: "n < 256 \<Longrightarrow> unat (of_nat n :: byte) = n"
  by (simp add: unat_of_nat take_bit_eq_mod)

lemma byte_split: "(of_nat (16 * (unat w div 16) + unat w mod 16) :: byte) = w"
  by simp

lemma pair_iff:
  "(\<exists>x y. unhex a = Some x \<and> unhex b = Some y \<and> (of_nat (16 * x + y) :: byte) = w)
     \<longleftrightarrow> [ascii_lower a, ascii_lower b] = hex_byte w"
proof
  assume "\<exists>x y. unhex a = Some x \<and> unhex b = Some y \<and> (of_nat (16 * x + y) :: byte) = w"
  then obtain x y where xy: "unhex a = Some x" "unhex b = Some y" "(of_nat (16 * x + y) :: byte) = w"
    by blast
  from xy(1) have x: "x < 16" "ascii_lower a = hex_digit x" using unhex_lower by blast+
  from xy(2) have y: "y < 16" "ascii_lower b = hex_digit y" using unhex_lower by blast+
  have "16 * x + y < 256" using x(1) y(1) by simp
  then have "unat w = 16 * x + y" using xy(3) unat_byte by blast
  then have "unat w div 16 = x" "unat w mod 16 = y" using y(1) by simp_all
  then show "[ascii_lower a, ascii_lower b] = hex_byte w"
    by (simp add: hex_byte_def x(2) y(2))
next
  assume h: "[ascii_lower a, ascii_lower b] = hex_byte w"
  have "unat w < 256" using unsigned_less [of w] by simp
  then have d: "unat w div 16 < 16" by simp
  have m: "unat w mod 16 < 16" by simp
  from h have "unhex a = Some (unat w div 16)" "unhex b = Some (unat w mod 16)"
    using lower_unhex [OF d] lower_unhex [OF m] by (simp_all add: hex_byte_def)
  then show "\<exists>x y. unhex a = Some x \<and> unhex b = Some y \<and> (of_nat (16 * x + y) :: byte) = w"
    using byte_split by blast
qed

lemma buffer_from_hex_iff:
  "length sig = 2 * length bs \<Longrightarrow>
     buffer_from_hex sig = bs \<longleftrightarrow> map ascii_lower sig = hex_encode bs"
proof (induction bs arbitrary: sig)
  case Nil
  then show ?case by (simp add: hex_encode_def)
next
  case (Cons w ws)
  then obtain a b rest where sig: "sig = a # b # rest" and len: "length rest = 2 * length ws"
    by (cases sig; cases "tl sig") auto
  have enc: "hex_encode (w # ws) = hex_byte w @ hex_encode ws"
    by (simp add: hex_encode_def)
  have hb: "length (hex_byte w) = 2" by (simp add: hex_byte_def)
  show ?case
  proof
    assume "buffer_from_hex sig = w # ws"
    then obtain x y where "unhex a = Some x" "unhex b = Some y" "(of_nat (16 * x + y) :: byte) = w"
      "buffer_from_hex rest = ws"
      using sig by (auto split: option.splits)
    then show "map ascii_lower sig = hex_encode (w # ws)"
      using pair_iff [of a b w] Cons.IH [OF len] sig enc by auto
  next
    assume h: "map ascii_lower sig = hex_encode (w # ws)"
    then have "[ascii_lower a, ascii_lower b] = hex_byte w \<and> map ascii_lower rest = hex_encode ws"
      using sig enc hb by (auto simp: hex_byte_def)
    then show "buffer_from_hex sig = w # ws"
      using pair_iff [of a b w] Cons.IH [OF len] sig by auto
  qed
qed

lemma length_hex_encode: "length (hex_encode bs) = 2 * length bs"
  by (induction bs) (simp_all add: hex_encode_def hex_byte_def)

lemma length_buffer_from_hex: "length (buffer_from_hex s) \<le> length s div 2"
  by (induction s rule: buffer_from_hex.induct) (auto split: option.splits)


lemma ascii_lower_hex_digit: "n < 16 \<Longrightarrow> ascii_lower (hex_digit n) = hex_digit n"
  by (auto simp: ascii_lower_def hex_digit_def Let_def take_bit_eq_mod)

lemma byte_nibbles: "unat (w :: byte) div 16 < 16 \<and> unat w mod 16 < 16"
proof -
  have "unat w < 256" using unsigned_less [of w] by simp
  then show ?thesis by simp
qed

lemma hex_encode_lower: "map ascii_lower (hex_encode bs) = hex_encode bs"
  by (induction bs) (simp_all add: hex_encode_def hex_byte_def ascii_lower_hex_digit byte_nibbles)

lemma buffer_from_hex_encode: "buffer_from_hex (hex_encode bs) = bs"
  using buffer_from_hex_iff [of "hex_encode bs" bs]
  by (simp add: length_hex_encode hex_encode_lower)

lemma hex_encode_Nil_iff: "hex_encode bs = [] \<longleftrightarrow> bs = []"
  using length_hex_encode [of bs] by (cases bs) auto

lemma buffer_from_hex_all_digits:
  "\<forall>c\<in>set s. unhex c \<noteq> None \<Longrightarrow> length (buffer_from_hex s) = length s div 2"
  by (induction s rule: buffer_from_hex.induct) (auto split: option.splits)

lemma buffer_from_hex_short:
  "even (length s) \<Longrightarrow> \<exists>c\<in>set s. unhex c = None
     \<Longrightarrow> length (buffer_from_hex s) < length s div 2"
  by (induction s rule: buffer_from_hex.induct) (auto split: option.splits)

lemma validateQR_live_entry:
  assumes "\<not> falsy qrId" "\<not> falsy sig" "\<not> falsy_opt secret"
    and "redis_get store now (QR_KEY_PREFIX @ qrId) = Some (Json_entry sid ts)"
  shows "validateQR hmac secret now store qrId sig =
     (let bs = hmac (secret_key secret) \<lparr>p_qrId = qrId, p_sessionId = sid, p_timestamp = ts\<rparr>;
          key = QR_KEY_PREFIX @ qrId
      in if length sig \<noteq> 2 * length bs then (None, redis_del store key)
         else if length (buffer_from_hex sig) \<noteq> length bs then (None, store)
         else if buffer_from_hex sig \<noteq> bs then (None, redis_del store key)
         else (Some sid, redis_del store key))"
  using assms
  by (simp add: validateQR_def Let_def timingSafeEqual_def buffer_from_hex_encode
      length_hex_encode)

lemma validateQR_no_entry:
  assumes "redis_get store now (QR_KEY_PREFIX @ qrId) = None"
  shows "validateQR hmac secret now store qrId sig = (None, store)"
  using assms by (simp add: validateQR_def Let_def)

lemma redis_get_del: "redis_get (redis_del store key) now key = None"
  by (simp add: redis_get_def redis_del_def)

lemma generateQR_Inr:
  assumes "generateQR hmac secret uuid t0 store sid = Inr (r, store1)"
  shows "\<not> falsy sid" "\<not> falsy_opt secret"
    "qr_qrId r = uuid"
    "qr_signature r = hex_encode (hmac (secret_key secret)
        \<lparr>p_qrId = uuid, p_sessionId = sid, p_timestamp = t0\<rparr>)"
    "qr_expiresAt r = t0 + 300000"
    "qr_qrImage r = QR_image [(''qrId'', qr_qrId r), (''signature'', qr_signature r)]"
    "store1 = store(QR_KEY_PREFIX @ uuid \<mapsto> (Json_entry sid t0, t0 + 300000))"
  using assms
  by (auto simp: generateQR_def Let_def redis_setex_def QR_TTL_def split: if_splits)

lemma generateQR_live:
  assumes "generateQR hmac secret uuid t0 store sid = Inr (r, store1)" "t1 < t0 + 300000"
  shows "redis_get store1 t1 (QR_KEY_PREFIX @ uuid) = Some (Json_entry sid t0)"
  using generateQR_Inr(7) [OF assms(1)] assms(2) by (simp add: redis_get_def)

lemma validateQR_accepts:
  assumes "\<not> falsy qrId" "\<not> falsy sig" "\<not> falsy_opt secret"
    and "redis_get store now (QR_KEY_PREFIX @ qrId) = Some (Json_entry sid ts)"
    and "length sig = 2 * length (hmac (secret_key secret)
            \<lparr>p_qrId = qrId, p_sessionId = sid, p_timestamp = ts\<rparr>)"
    and "buffer_from_hex sig = hmac (secret_key secret)
            \<lparr>p_qrId = qrId, p_sessionId = sid, p_timestamp = ts\<rparr>"
  shows "validateQR hmac secret now store qrId sig
           = (Some sid, redis_del store (QR_KEY_PREFIX @ qrId))"
  using validateQR_live_entry [OF assms(1-4), of hmac] assms(5,6) by (simp add: Let_def)

lemma validateQR_throws:
  assumes "\<not> falsy qrId" "\<not> falsy sig" "\<not> falsy_opt secret"
    and "redis_get store now (QR_KEY_PREFIX @ qrId) = Some (Json_entry sid ts)"
    and "length sig = 2 * length (hmac (secret_key secret)
            \<lparr>p_qrId = qrId, p_sessionId = sid, p_timestamp = ts\<rparr>)"
    and "length (buffer_from_hex sig) \<noteq> length (hmac (secret_key secret)
            \<lparr>p_qrId = qrId, p_sessionId = sid, p_timestamp = ts\<rparr>)"
  shows "validateQR hmac secret now store qrId sig = (None, store)"
  using validateQR_live_entry [OF assms(1-4), of hmac] assms(5,6) by (simp add: Let_def)

lemma validateQR_Some_iff:
  "fst (validateQR hmac secret now store qrId sig) = Some sid \<longleftrightarrow>
     (\<not> falsy qrId \<and> \<not> falsy sig \<and> \<not> falsy_opt secret \<and>
      (\<exists>ts. redis_get store now (QR_KEY_PREFIX @ qrId) = Some (Json_entry sid ts) \<and>
            map ascii_lower sig = hex_encode (hmac (secret_key secret)
               \<lparr>p_qrId = qrId, p_sessionId = sid, p_timestamp = ts\<rparr>)))"
proof (cases "falsy qrId \<or> falsy sig \<or> falsy_opt secret")
  case True
  then show ?thesis by (auto simp: validateQR_def)
next
  case False
  note ok = this
  show ?thesis
  proof (cases "redis_get store now (QR_KEY_PREFIX @ qrId)")
    case None
    then show ?thesis using validateQR_no_entry [OF None] by simp
  next
    case (Some v)
    show ?thesis
    proof (cases v)
      case (Not_json raw)
      then show ?thesis using Some ok by (simp add: validateQR_def Let_def)
    next
      case (Json_entry sid' ts)
      let ?bs = "hmac (secret_key secret) \<lparr>p_qrId = qrId, p_sessionId = sid', p_timestamp = ts\<rparr>"
      have v: "validateQR hmac secret now store qrId sig =
         (if length sig \<noteq> 2 * length ?bs then (None, redis_del store (QR_KEY_PREFIX @ qrId))
          else if length (buffer_from_hex sig) \<noteq> length ?bs then (None, store)
          else if buffer_from_hex sig \<noteq> ?bs then (None, redis_del store (QR_KEY_PREFIX @ qrId))
          else (Some sid', redis_del store (QR_KEY_PREFIX @ qrId)))"
        using validateQR_live_entry [of qrId sig secret store now sid' ts hmac] ok Some Json_entry
        by (simp add: Let_def)
      show ?thesis
      proof (cases "length sig = 2 * length ?bs")
        case False
        then have "map ascii_lower sig \<noteq> hex_encode ?bs"
          using length_hex_encode [of ?bs] by (metis length_map)
        then show ?thesis using v False Some Json_entry by auto
      next
        case True
        then show ?thesis
          using v Some Json_entry ok buffer_from_hex_iff [OF True] by auto
      qed
    qed
  qed
qed

subsection \<open>The concrete token\<close>

lemma demo_digest:
  "hex_encode (toy_mac ''top-secret''
      \<lparr>p_qrId = demo_uuid, p_sessionId = ''S1'', p_timestamp = demo_issued\<rparr>) = demo_signature"
  by code_simp

lemma demo_generate:
  "generateQR toy_mac demo_secret demo_uuid demo_issued Map.empty ''S1''
     = Inr (demo_result, demo_store)"
  by (simp add: generateQR_def Let_def falsy_def falsy_opt_def demo_secret_def demo_digest
      demo_result_def demo_store_def redis_setex_def QR_TTL_def)

lemma demo_live:
  "redis_get demo_store (demo_issued + 1000) (QR_KEY_PREFIX @ demo_uuid)
     = Some (Json_entry ''S1'' demo_issued)"
  by (simp add: redis_get_def demo_store_def)

lemma demo_truthy:
  "\<not> falsy demo_uuid" "\<not> falsy_opt demo_secret"
  "\<not> falsy demo_signature_upper" "\<not> falsy demo_signature_mixed"
  "\<not> falsy demo_signature_malformed"
  by (simp_all add: falsy_def falsy_opt_def demo_uuid_def demo_secret_def
      demo_signature_upper_def demo_signature_mixed_def demo_signature_malformed_def)

lemma demo_mac_length:
  "length (toy_mac k p) = 32"
  by (simp add: toy_mac_def)

lemma demo_upper_decoded:
  "buffer_from_hex demo_signature_upper = toy_mac (secret_key demo_secret)
      \<lparr>p_qrId = demo_uuid, p_sessionId = ''S1'', p_timestamp = demo_issued\<rparr>"
  by code_simp

lemma demo_mixed_decoded:
  "buffer_from_hex demo_signature_mixed = toy_mac (secret_key demo_secret)
      \<lparr>p_qrId = demo_uuid, p_sessionId = ''S1'', p_timestamp = demo_issued\<rparr>"
  by code_simp

lemma demo_malformed_decoded: "buffer_from_hex demo_signature_malformed = []"
  by code_simp

subsection \<open>Single use\<close>

text \<open>
  Claim C1. For every issued token, the first \<open>validateQR\<close> call with the issued signature,
  made before the time-to-live runs out, returns the stored session id and deletes the
  store entry; every later \<open>validateQR\<close> call for the same token id, at any time and
  with any signature (the right one included), returns \<open>null\<close> and leaves the store as
  it is. The identifier drawn by \<open>uuidv4()\<close> and the digest are non-empty.
\<close>

theorem single_use:
  assumes gen: "generateQR hmac secret uuid t0 store sid = Inr (r, store1)"
    and uuid: "uuid \<noteq> []"
    and mac: "hmac (secret_key secret)
                \<lparr>p_qrId = uuid, p_sessionId = sid, p_timestamp = t0\<rparr> \<noteq> []"
    and ttl: "t1 < t0 + 300000"
  shows "validateQR hmac secret t1 store1 (qr_qrId r) (qr_signature r)
           = (Some sid, redis_del store1 (QR_KEY_PREFIX @ qr_qrId r))
       \<and> (\<forall>t2 sig. validateQR hmac secret t2 (redis_del store1 (QR_KEY_PREFIX @ qr_qrId r))
                     (qr_qrId r) sig
           = (None, redis_del store1 (QR_KEY_PREFIX @ qr_qrId r)))"
proof -
  note g = generateQR_Inr [OF gen]
  have sig: "\<not> falsy (qr_signature r)"
    using mac by (simp add: g(4) falsy_def hex_encode_Nil_iff)
  have first: "validateQR hmac secret t1 store1 (qr_qrId r) (qr_signature r)
           = (Some sid, redis_del store1 (QR_KEY_PREFIX @ qr_qrId r))"
    using validateQR_live_entry [OF _ sig g(2), of "qr_qrId r" store1 t1 sid t0 hmac]
      generateQR_live [OF gen ttl] uuid
    by (simp add: g(3) falsy_def Let_def g(4) length_hex_encode buffer_from_hex_encode)
  have later: "validateQR hmac secret t2 (redis_del store1 (QR_KEY_PREFIX @ qr_qrId r))
                     (qr_qrId r) sig'
           = (None, redis_del store1 (QR_KEY_PREFIX @ qr_qrId r))" for t2 sig'
    by (rule validateQR_no_entry) (rule redis_get_del)
  from first later show ?thesis by blast
qed

theorem single_use_witness:
  "generateQR toy_mac demo_secret demo_uuid demo_issued Map.empty ''S1''
     = Inr (demo_result, demo_store)
   \<and> demo_uuid \<noteq> []
   \<and> demo_issued + 1000 < demo_issued + 300000
   \<and> validateQR toy_mac demo_secret (demo_issued + 1000) demo_store demo_uuid demo_signature
       = (Some ''S1'', redis_del demo_store (QR_KEY_PREFIX @ demo_uuid))
   \<and> validateQR toy_mac demo_secret (demo_issued + 2000)
         (redis_del demo_store (QR_KEY_PREFIX @ demo_uuid)) demo_uuid demo_signature
       = (None, redis_del demo_store (QR_KEY_PREFIX @ demo_uuid))"
proof -
  have u: "demo_uuid \<noteq> []" by (simp add: demo_uuid_def)
  have m: "toy_mac (secret_key demo_secret)
      \<lparr>p_qrId = demo_uuid, p_sessionId = ''S1'', p_timestamp = demo_issued\<rparr> \<noteq> []"
    by (simp add: toy_mac_def)
  have t: "demo_issued + 1000 < demo_issued + 300000" by simp
  show ?thesis
    using single_use [OF demo_generate u m t] demo_generate u
    by (simp add: demo_result_def)
qed

subsection \<open>Tampered signatures\<close>

text \<open>
  A signature that is not the issued one burns the token when its length is another, or
  when it is made of hexadecimal digits and differs from the issued one in more than the
  case of its letters: \<open>validateQR\<close> returns \<open>null\<close> and deletes the entry, so the
  issued signature is refused afterwards.
\<close>

lemma tampered_signature_burned:
  assumes gen: "generateQR hmac secret uuid t0 store sid = Inr (r, store1)"
    and uuid: "uuid \<noteq> []"
    and ttl: "t1 < t0 + 300000"
    and sig: "sig \<noteq> []"
    and bad: "length sig \<noteq> length (qr_signature r)
              \<or> ((\<forall>c\<in>set sig. unhex c \<noteq> None) \<and> map ascii_lower sig \<noteq> qr_signature r)"
  shows "validateQR hmac secret t1 store1 (qr_qrId r) sig
           = (None, redis_del store1 (QR_KEY_PREFIX @ qr_qrId r))
       \<and> (\<forall>t2. validateQR hmac secret t2 (redis_del store1 (QR_KEY_PREFIX @ qr_qrId r))
                     (qr_qrId r) (qr_signature r)
           = (None, redis_del store1 (QR_KEY_PREFIX @ qr_qrId r)))"
proof -
  note g = generateQR_Inr [OF gen]
  let ?bs = "hmac (secret_key secret) \<lparr>p_qrId = uuid, p_sessionId = sid, p_timestamp = t0\<rparr>"
  have v: "validateQR hmac secret t1 store1 (qr_qrId r) sig =
     (if length sig \<noteq> 2 * length ?bs then (None, redis_del store1 (QR_KEY_PREFIX @ qr_qrId r))
         else if length (buffer_from_hex sig) \<noteq> length ?bs then (None, store1)
         else if buffer_from_hex sig \<noteq> ?bs then (None, redis_del store1 (QR_KEY_PREFIX @ qr_qrId r))
         else (Some sid, redis_del store1 (QR_KEY_PREFIX @ qr_qrId r)))"
    using validateQR_live_entry [OF _ _ g(2), of "qr_qrId r" sig store1 t1 sid t0 hmac]
      generateQR_live [OF gen ttl] uuid sig
    by (simp add: g(3) falsy_def Let_def)
  have first: "validateQR hmac secret t1 store1 (qr_qrId r) sig
           = (None, redis_del store1 (QR_KEY_PREFIX @ qr_qrId r))"
  proof (cases "length sig = 2 * length ?bs")
    case False
    then show ?thesis using v by simp
  next
    case True
    with bad have d: "\<forall>c\<in>set sig. unhex c \<noteq> None" and ne: "map ascii_lower sig \<noteq> hex_encode ?bs"
      by (simp_all add: g(4) length_hex_encode)
    have "length (buffer_from_hex sig) = length ?bs"
      using buffer_from_hex_all_digits [OF d] True by simp
    moreover have "buffer_from_hex sig \<noteq> ?bs"
      using buffer_from_hex_iff [OF True] ne by simp
    ultimately show ?thesis using v True by simp
  qed
  have later: "validateQR hmac secret t2 (redis_del store1 (QR_KEY_PREFIX @ qr_qrId r))
                     (qr_qrId r) (qr_signature r)
           = (None, redis_del store1 (QR_KEY_PREFIX @ qr_qrId r))" for t2
    by (rule validateQR_no_entry) (rule redis_get_del)
  from first later show ?thesis by blast
qed

text \<open>
  The issued signature written with upper-case letters is another text that decodes to the
  same bytes: it is accepted, and the token is consumed.
\<close>

lemma uppercase_signature_accepted:
  "demo_signature_upper \<noteq> demo_signature
   \<and> validateQR toy_mac demo_secret (demo_issued + 1000) demo_store demo_uuid
        demo_signature_upper
       = (Some ''S1'', redis_del demo_store (QR_KEY_PREFIX @ demo_uuid))"
proof -
  have l: "length demo_signature_upper = 2 * length (toy_mac (secret_key demo_secret)
      \<lparr>p_qrId = demo_uuid, p_sessionId = ''S1'', p_timestamp = demo_issued\<rparr>)"
    by (simp add: demo_mac_length demo_signature_upper_def)
  have "demo_signature_upper \<noteq> demo_signature"
    by (simp add: demo_signature_upper_def demo_signature_def)
  then show ?thesis
    using validateQR_accepts [where hmac = toy_mac, OF demo_truthy(1) demo_truthy(3) demo_truthy(2) demo_live l
        demo_upper_decoded]
    by simp
qed

text \<open>
  Claim C2 asks that every signature other than the issued one is answered with \<open>null\<close>
  and burns the token, so that the issued signature is refused afterwards. The code does
  not do this for a signature of the issued length that holds a character which is not a
  hexadecimal digit. \<open>Buffer.from(signature, 'hex')\<close> stops at the first pair it cannot
  decode, \<open>crypto.timingSafeEqual\<close> throws on buffers of different lengths, and the
  outer \<open>catch\<close> returns \<open>null\<close> without reaching \<open>redis.del\<close>, although the
  comments at both \<open>redis.del\<close> calls say that an invalid code is deleted to prevent
  retries. For every digest and every issued token: such a signature is not the issued
  one, it is answered with \<open>null\<close>, the store is left as it is, and the issued
  signature is still accepted afterwards, at any time before the entry runs out.
\<close>

theorem malformed_signature_not_burned:
  assumes gen: "generateQR hmac secret uuid t0 store sid = Inr (r, store1)"
    and uuid: "uuid \<noteq> []"
    and ttl: "t1 < t0 + 300000" "t2 < t0 + 300000"
    and len: "length sig = length (qr_signature r)"
    and bad: "\<exists>c\<in>set sig. unhex c = None"
  shows "sig \<noteq> qr_signature r
       \<and> validateQR hmac secret t1 store1 (qr_qrId r) sig = (None, store1)
       \<and> validateQR hmac secret t2 store1 (qr_qrId r) (qr_signature r)
           = (Some sid, redis_del store1 (QR_KEY_PREFIX @ qr_qrId r))"
proof -
  note g = generateQR_Inr [OF gen]
  let ?bs = "hmac (secret_key secret) \<lparr>p_qrId = uuid, p_sessionId = sid, p_timestamp = t0\<rparr>"
  have l: "length sig = 2 * length ?bs"
    using len by (simp add: g(4) length_hex_encode)
  have short: "length (buffer_from_hex sig) < length ?bs"
    using buffer_from_hex_short [OF _ bad] l by simp
  have ne: "sig \<noteq> []" using bad by auto
  then have ne': "qr_signature r \<noteq> []" using len by auto
  have differs: "sig \<noteq> qr_signature r"
  proof
    assume "sig = qr_signature r"
    then have "buffer_from_hex sig = ?bs" by (simp add: g(4) buffer_from_hex_encode)
    with short show False by simp
  qed
  have first: "validateQR hmac secret t1 store1 (qr_qrId r) sig = (None, store1)"
    using validateQR_live_entry [OF _ _ g(2), of "qr_qrId r" sig store1 t1 sid t0 hmac]
      generateQR_live [OF gen ttl(1)] uuid ne l short
    by (simp add: g(3) falsy_def Let_def)
  have second: "validateQR hmac secret t2 store1 (qr_qrId r) (qr_signature r)
           = (Some sid, redis_del store1 (QR_KEY_PREFIX @ qr_qrId r))"
    using validateQR_live_entry [OF _ _ g(2), of "qr_qrId r" "qr_signature r" store1 t2 sid t0
        hmac]
      generateQR_live [OF gen ttl(2)] uuid ne'
    by (simp add: g(3) falsy_def Let_def g(4) length_hex_encode buffer_from_hex_encode)
  from differs first second show ?thesis by blast
qed

theorem malformed_signature_not_burned_witness:
  "generateQR toy_mac demo_secret demo_uuid demo_issued Map.empty ''S1''
     = Inr (demo_result, demo_store)
   \<and> demo_uuid \<noteq> []
   \<and> length demo_signature_malformed = length (qr_signature demo_result)
   \<and> (\<exists>c\<in>set demo_signature_malformed. unhex c = None)
   \<and> demo_signature_malformed \<noteq> demo_signature
   \<and> validateQR toy_mac demo_secret (demo_issued + 1000) demo_store demo_uuid
        demo_signature_malformed = (None, demo_store)
   \<and> validateQR toy_mac demo_secret (demo_issued + 2000) demo_store demo_uuid demo_signature
       = (Some ''S1'', redis_del demo_store (QR_KEY_PREFIX @ demo_uuid))"
proof -
  have u: "demo_uuid \<noteq> []" by (simp add: demo_uuid_def)
  have t: "demo_issued + 1000 < demo_issued + 300000" "demo_issued + 2000 < demo_issued + 300000"
    by simp_all
  have l: "length demo_signature_malformed = length (qr_signature demo_result)"
    by (simp add: demo_signature_malformed_def demo_result_def demo_signature_def)
  have z: "unhex CHR ''z'' = None" by code_simp
  have b: "\<exists>c\<in>set demo_signature_malformed. unhex c = None"
    by (simp add: demo_signature_malformed_def z)
  show ?thesis
    using malformed_signature_not_burned [OF demo_generate u t l b] demo_generate u l b
    by (simp add: demo_result_def)
qed

subsection \<open>When validation succeeds\<close>

text \<open>
  Claim C3 as stated fails in its only-if half: a signature that differs from the
  recomputed MAC text in the case of one letter is accepted.
\<close>

theorem validate_iff_counterexample:
  "demo_signature_mixed \<noteq> hex_encode (toy_mac (secret_key demo_secret)
        \<lparr>p_qrId = demo_uuid, p_sessionId = ''S1'', p_timestamp = demo_issued\<rparr>)
   \<and> fst (validateQR toy_mac demo_secret (demo_issued + 1000) demo_store demo_uuid
            demo_signature_mixed) = Some ''S1''"
proof -
  have l: "length demo_signature_mixed = 2 * length (toy_mac (secret_key demo_secret)
      \<lparr>p_qrId = demo_uuid, p_sessionId = ''S1'', p_timestamp = demo_issued\<rparr>)"
    by (simp add: demo_mac_length demo_signature_mixed_def)
  have "fst (validateQR toy_mac demo_secret (demo_issued + 1000) demo_store demo_uuid
            demo_signature_mixed) = Some ''S1''"
    using validateQR_accepts [where hmac = toy_mac, OF demo_truthy(1) demo_truthy(4) demo_truthy(2) demo_live l
        demo_mixed_decoded]
    by simp
  moreover have "demo_signature_mixed \<noteq> hex_encode (toy_mac (secret_key demo_secret)
        \<lparr>p_qrId = demo_uuid, p_sessionId = ''S1'', p_timestamp = demo_issued\<rparr>)"
    using demo_digest by (simp add: demo_secret_def demo_signature_mixed_def demo_signature_def)
  ultimately show ?thesis by simp
qed

text \<open>
  Claim C3, amended. \<open>validateQR(qrId, signature)\<close> returns the stored session id if and
  only if both arguments are non-empty, the signing secret is configured, the store holds
  an unexpired entry for \<open>qrId\<close>, and the presented signature equals, up to the case of
  its hexadecimal letters, the MAC recomputed over the stored
  \<open>{qrId, sessionId, timestamp}\<close>. In every other case (no entry, entry expired,
  signature mismatch) the result is the same \<open>null\<close>.
\<close>

theorem validate_characterisation:
  "(fst (validateQR hmac secret now store qrId sig) = Some sid \<longleftrightarrow>
     (\<not> falsy qrId \<and> \<not> falsy sig \<and> \<not> falsy_opt secret \<and>
      (\<exists>ts. redis_get store now (QR_KEY_PREFIX @ qrId) = Some (Json_entry sid ts) \<and>
            map ascii_lower sig = hex_encode (hmac (secret_key secret)
               \<lparr>p_qrId = qrId, p_sessionId = sid, p_timestamp = ts\<rparr>))))
   \<and> (fst (validateQR hmac secret now store qrId sig) = None \<longleftrightarrow>
     \<not> (\<not> falsy qrId \<and> \<not> falsy sig \<and> \<not> falsy_opt secret \<and>
      (\<exists>sid' ts. redis_get store now (QR_KEY_PREFIX @ qrId) = Some (Json_entry sid' ts) \<and>
            map ascii_lower sig = hex_encode (hmac (secret_key secret)
               \<lparr>p_qrId = qrId, p_sessionId = sid', p_timestamp = ts\<rparr>))))"
proof -
  let ?v = "fst (validateQR hmac secret now store qrId sig)"
  let ?ok = "\<lambda>x. \<not> falsy qrId \<and> \<not> falsy sig \<and> \<not> falsy_opt secret \<and>
      (\<exists>ts. redis_get store now (QR_KEY_PREFIX @ qrId) = Some (Json_entry x ts) \<and>
            map ascii_lower sig = hex_encode (hmac (secret_key secret)
               \<lparr>p_qrId = qrId, p_sessionId = x, p_timestamp = ts\<rparr>))"
  have some: "?v = Some x \<longleftrightarrow> ?ok x" for x
    by (rule validateQR_Some_iff)
  have "?v = None \<longleftrightarrow> (\<forall>x. ?v \<noteq> Some x)"
    by (cases ?v) simp_all
  also have "\<dots> \<longleftrightarrow> (\<forall>x. \<not> ?ok x)"
    using some by simp
  finally have none: "?v = None \<longleftrightarrow> (\<forall>x. \<not> ?ok x)" .
  have "(\<forall>x. \<not> ?ok x) \<longleftrightarrow>
     \<not> (\<not> falsy qrId \<and> \<not> falsy sig \<and> \<not> falsy_opt secret \<and>
      (\<exists>sid' ts. redis_get store now (QR_KEY_PREFIX @ qrId) = Some (Json_entry sid' ts) \<and>
            map ascii_lower sig = hex_encode (hmac (secret_key secret)
               \<lparr>p_qrId = qrId, p_sessionId = sid', p_timestamp = ts\<rparr>)))"
    by blast
  with none some [of sid] show ?thesis by simp
qed

theorem validate_characterisation_witness:
  "fst (validateQR toy_mac demo_secret (demo_issued + 300000) demo_store demo_uuid
          demo_signature) = None
   \<and> fst (validateQR toy_mac demo_secret (demo_issued + 1000) Map.empty demo_uuid
          demo_signature) = None"
proof -
  have e: "redis_get demo_store (demo_issued + 300000) (QR_KEY_PREFIX @ demo_uuid) = None"
    by (simp add: redis_get_def demo_store_def)
  have n: "redis_get Map.empty (demo_issued + 1000) (QR_KEY_PREFIX @ demo_uuid) = None"
    by (simp add: redis_get_def)
  show ?thesis
    using validate_characterisation [of toy_mac demo_secret "demo_issued + 300000" demo_store
        demo_uuid demo_signature]
      validate_characterisation [of toy_mac demo_secret "demo_issued + 1000" Map.empty
        demo_uuid demo_signature]
    by (simp add: e n)
qed

subsection \<open>What the QR symbol carries\<close>

text \<open>
  Claim C4. For every session id for which \<open>generateQR\<close> succeeds, the object encoded in
  the rendered QR symbol has exactly the two fields \<open>qrId\<close> and \<open>signature\<close>, holding
  the token id and the hexadecimal MAC; it has no \<open>sessionId\<close> and no \<open>timestamp\<close>
  field.
\<close>

theorem payload_fields:
  assumes "generateQR hmac secret uuid t0 store sid = Inr (r, store1)"
  shows "qr_decode (qr_qrImage r) =
           [(''qrId'', uuid),
            (''signature'', hex_encode (hmac (secret_key secret)
                \<lparr>p_qrId = uuid, p_sessionId = sid, p_timestamp = t0\<rparr>))]
       \<and> map fst (qr_decode (qr_qrImage r)) = [''qrId'', ''signature'']
       \<and> map_of (qr_decode (qr_qrImage r)) ''sessionId'' = None
       \<and> map_of (qr_decode (qr_qrImage r)) ''timestamp'' = None"
  using generateQR_Inr [OF assms] by simp

theorem payload_fields_witness:
  "generateQR toy_mac demo_secret demo_uuid demo_issued Map.empty ''S1''
     = Inr (demo_result, demo_store)
   \<and> map fst (qr_decode (qr_qrImage demo_result)) = [''qrId'', ''signature'']
   \<and> map_of (qr_decode (qr_qrImage demo_result)) ''sessionId'' = None"
  using payload_fields [OF demo_generate] demo_generate by simp

section \<open>Properties of the session handlers\<close>

subsection \<open>Merging tags\<close>











lemma sessions_registry_set [simp]: "sessions (registry_set key v sys) = sessions sys"
  by (simp add: registry_set_def split: option.splits)

lemma qr_redis_registry_set [simp]: "qr_redis (registry_set key v sys) = qr_redis sys"
  by (simp add: registry_set_def split: option.splits)


lemma apply_message_registry [simp]:
  "apply_message e sid uid msg (registry_set key v sys) = apply_message e sid uid msg sys"
  by (simp add: apply_message_def fetch_or_create_def)

lemma mobile_message_sessions:
  "sessions (snd (mobile_message e sock sidO uidO msgO sys)) = sessions sys
   \<or> sessions (snd (mobile_message e sock sidO uidO msgO sys))
       = (sessions sys)(str_of sidO \<mapsto> snd (apply_message e (str_of sidO) (str_of uidO) (str_of msgO) sys))"
  by (simp add: mobile_message_def Let_def split_beta)

lemma api_chat_message_sessions:
  "sessions (snd (api_chat_message e sidO uidO msgO sys)) = sessions sys
   \<or> (\<exists>h. sessions (snd (api_chat_message e sidO uidO msgO sys))
       = (sessions sys)(str_of sidO \<mapsto> (snd (apply_message e (str_of sidO) (str_of uidO) (str_of msgO) sys))
            \<lparr>s_conversationHistory := h\<rparr>))"
  by (auto simp add: api_chat_message_def Let_def split_beta)

subsection \<open>What each handler does to the status\<close>



lemma session_written:
  "\<exists>h i t. s = s\<lparr>s_conversationHistory := h, s_parsedIntent := i, s_tags := t\<rparr>"
  by (rule exI [of _ "s_conversationHistory s"], rule exI [of _ "s_parsedIntent s"],
      rule exI [of _ "s_tags s"]) simp

lemma apply_message_written:
  assumes "sessions sys sid = Some s"
  shows "\<exists>h i t. snd (apply_message e sid uid msg sys)
           = s\<lparr>s_conversationHistory := h, s_parsedIntent := i, s_tags := t\<rparr>"
  using assms
  by (simp add: apply_message_def Let_def fetch_or_create_def) (intro exI, rule refl)

lemma mobile_message_writes:
  assumes "sessions sys sid = Some s"
    and "sessions (snd (mobile_message e sock sidO uidO msgO sys)) sid = Some s'"
  shows "\<exists>h i t. s' = s\<lparr>s_conversationHistory := h, s_parsedIntent := i, s_tags := t\<rparr>"
  using mobile_message_sessions [of e sock sidO uidO msgO sys]
proof
  assume "sessions (snd (mobile_message e sock sidO uidO msgO sys)) = sessions sys"
  then have "s' = s" using assms by simp
  then show ?thesis using session_written [of s] by simp
next
  assume u: "sessions (snd (mobile_message e sock sidO uidO msgO sys))
       = (sessions sys)(str_of sidO \<mapsto>
            snd (apply_message e (str_of sidO) (str_of uidO) (str_of msgO) sys))"
  show ?thesis
  proof (cases "sid = str_of sidO")
    case True
    then have "s' = snd (apply_message e sid (str_of uidO) (str_of msgO) sys)"
      using assms(2) u by simp
    then show ?thesis using apply_message_written [OF assms(1)] by simp
  next
    case False
    then have "s' = s" using assms u by simp
    then show ?thesis using session_written [of s] by simp
  qed
qed

lemma api_chat_message_writes:
  assumes "sessions sys sid = Some s"
    and "sessions (snd (api_chat_message e sidO uidO msgO sys)) sid = Some s'"
  shows "\<exists>h i t. s' = s\<lparr>s_conversationHistory := h, s_parsedIntent := i, s_tags := t\<rparr>"
  using api_chat_message_sessions [of e sidO uidO msgO sys]
proof
  assume "sessions (snd (api_chat_message e sidO uidO msgO sys)) = sessions sys"
  then have "s' = s" using assms by simp
  then show ?thesis using session_written [of s] by simp
next
  assume "\<exists>h. sessions (snd (api_chat_message e sidO uidO msgO sys))
       = (sessions sys)(str_of sidO \<mapsto>
            (snd (apply_message e (str_of sidO) (str_of uidO) (str_of msgO) sys))
              \<lparr>s_conversationHistory := h\<rparr>)"
  then obtain h where u: "sessions (snd (api_chat_message e sidO uidO msgO sys))
       = (sessions sys)(str_of sidO \<mapsto>
            (snd (apply_message e (str_of sidO) (str_of uidO) (str_of msgO) sys))
              \<lparr>s_conversationHistory := h\<rparr>)"
    by blast
  show ?thesis
  proof (cases "sid = str_of sidO")
    case True
    then have e: "s' = (snd (apply_message e sid (str_of uidO) (str_of msgO) sys))
              \<lparr>s_conversationHistory := h\<rparr>"
      using assms(2) u by simp
    obtain h0 i t where "snd (apply_message e sid (str_of uidO) (str_of msgO) sys)
           = s\<lparr>s_conversationHistory := h0, s_parsedIntent := i, s_tags := t\<rparr>"
      using apply_message_written [OF assms(1)] by blast
    then have "s' = s\<lparr>s_conversationHistory := h, s_parsedIntent := i, s_tags := t\<rparr>"
      using e by simp
    then show ?thesis by blast
  next
    case False
    then have "s' = s" using assms u by simp
    then show ?thesis using session_written [of s] by simp
  qed
qed

lemma mobile_message_status:
  assumes "sessions sys sid = Some s"
    and "sessions (snd (mobile_message e sock sidO uidO msgO sys)) sid = Some s'"
  shows "s_status s' = s_status s"
  using mobile_message_writes [OF assms] by auto

lemma api_chat_message_status:
  assumes "sessions sys sid = Some s"
    and "sessions (snd (api_chat_message e sidO uidO msgO sys)) sid = Some s'"
  shows "s_status s' = s_status s"
  using api_chat_message_writes [OF assms] by auto

lemma mobile_generateQR_status:
  assumes "sessions sys sid = Some s"
    and "sessions (snd (mobile_generateQR hmac secret e sidO sys)) sid = Some s'"
  shows "s_status s' = s_status s"
  using assms
  by (auto simp: mobile_generateQR_def Let_def split: if_splits sum.splits option.splits)

lemma api_qr_generate_status:
  assumes "sessions sys sid = Some s"
    and "sessions (snd (api_qr_generate hmac secret e sidO sys)) sid = Some s'"
  shows "s_status s' = s_status s"
  using assms
  by (auto simp: api_qr_generate_def Let_def split: if_splits sum.splits option.splits)

lemma kiosk_scanQR_status:
  assumes "sessions sys sid = Some s"
    and "sessions (snd (kiosk_scanQR hmac secret e sock qrId sig kioskId sys)) sid = Some s'"
  shows "s_status s' = s_status s \<or> s_status s' = Transferred"
  using assms
  by (auto simp: kiosk_scanQR_def Let_def split_beta split: if_splits option.splits)

text \<open>
  The kiosk scan on a token that validates, for a session that exists, with the database
  calls succeeding: the session is stored with the status \<open>transferred\<close> and is
  otherwise as it was, the token is consumed, and the kiosk is sent the session.
\<close>

lemma validateQR_Some_truthy:
  assumes "validateQR hmac secret now store qrId sig = (Some sid, store')"
  shows "\<not> falsy qrId" "\<not> falsy sig"
  using assms by (auto simp: validateQR_def split: if_splits)

lemma kiosk_scanQR_transfers:
  assumes v: "validateQR hmac secret (io_now e) (qr_redis sys) qrId sig = (Some sid, store')"
    and sid: "\<not> falsy sid" and db: "io_find_ok e" "io_save_ok e"
    and sess: "sessions sys sid = Some s"
  shows "sessions (snd (kiosk_scanQR hmac secret e sock (Some qrId) (Some sig) kioskId sys))
           = (sessions sys)(sid \<mapsto> s\<lparr>s_status := Transferred\<rparr>)"
    and "qr_redis (snd (kiosk_scanQR hmac secret e sock (Some qrId) (Some sig) kioskId sys))
           = store'"
    and "\<exists>products explanations confidence notice.
           fst (kiosk_scanQR hmac secret e sock (Some qrId) (Some sig) kioskId sys)
             = Kiosk_sessionData (s\<lparr>s_status := Transferred\<rparr>) products explanations
                 confidence # notice"
  using validateQR_Some_truthy [OF v] v sid db sess
  by (simp_all add: kiosk_scanQR_def Let_def falsy_opt_def str_of_def)

lemma api_qr_validate_sessions:
  "sessions (snd (api_qr_validate hmac secret e qrId sig sys)) = sessions sys"
  by (auto simp: api_qr_validate_def Let_def split_beta split: if_splits option.splits)

lemma identify_sessions:
  "sessions (snd (mobile_identify sock uid sys)) = sessions sys"
  "sessions (snd (kiosk_identify sock kid sys)) = sessions sys"
  "sessions (snd (disconnect keys sock sys)) = sessions sys"
  "sessions (snd (api_session_get e sid sys)) = sessions sys"
  "sessions (snd (api_qr_expire e qrId sys)) = sessions sys"
  "sessions (snd (kiosk_requestAssociate e sidO pidO sys)) = sessions sys"
  by (auto simp: mobile_identify_def kiosk_identify_def disconnect_def api_session_get_def
      api_qr_expire_def kiosk_requestAssociate_def split_beta split: option.splits)

lemma api_session_delete_status:
  assumes "sessions sys sid = Some s" 
    and "sessions (snd (api_session_delete e sidO sys)) sid = Some s'"
  shows "s' = s"
  using assms
  by (auto simp: api_session_delete_def split: if_splits option.splits)

subsection \<open>What the message path does to the tags\<close>

lemma tags_fetch_or_create: "s_tags (fetch_or_create sys sid uid) = tags_before sys sid"
  by (simp add: fetch_or_create_def tags_before_def new_session_def split: option.splits)




lemma budget_valid_cast [simp]: "budget_valid (schema_cast i) = budget_valid i"
  by (simp add: budget_valid_def schema_cast_def)

lemma apply_message_intent:
  "s_parsedIntent (snd (apply_message e sid uid msg sys))
     = schema_cast (pa_intent (fst (apply_message e sid uid msg sys)))"
  by (simp add: apply_message_def Let_def)

lemma mobile_message_ok:
  assumes "\<not> falsy sid" "\<not> falsy uid" "\<not> falsy msg" "io_find_ok e" "io_save_ok e"
    and "budget_valid (pa_intent (fst (apply_message e sid uid msg sys)))"
  shows "sessions (snd (mobile_message e sock (Some sid) (Some uid) (Some msg) sys))
           = (sessions sys)(sid \<mapsto> snd (apply_message e sid uid msg sys))"
  using assms
  by (simp add: mobile_message_def Let_def split_beta falsy_opt_def str_of_def
      save_resolves_def apply_message_intent)


lemma mobile_message_rejected:
  assumes "\<not> budget_valid (pa_intent (fst (apply_message e (str_of sidO) (str_of uidO)
             (str_of msgO) sys)))"
  shows "sessions (snd (mobile_message e sock sidO uidO msgO sys)) = sessions sys"
  using assms
  by (simp add: mobile_message_def Let_def split_beta save_resolves_def apply_message_intent)

subsection \<open>Steps and runs\<close>


lemma step_keeps_session:
  assumes "sessions sys sid = Some s" and "req \<noteq> ApiSessionDelete sid"
  shows "\<exists>s'. sessions (snd (step hmac secret e req sys)) sid = Some s'"
proof (cases req)
  case (MobileMessage sock sidO uidO msgO)
  then show ?thesis
    using mobile_message_sessions [of e sock sidO uidO msgO sys] assms(1) by auto
next
  case (MobileGenerateQR sidO)
  then show ?thesis using assms(1)
    by (auto simp: mobile_generateQR_def Let_def split: sum.splits option.splits)
next
  case (KioskScanQR sock qrId sig kioskId)
  then show ?thesis using assms(1)
    by (auto simp: kiosk_scanQR_def Let_def split_beta split: option.splits)
next
  case (ApiChatMessage sidO uidO msgO)
  then show ?thesis
    using api_chat_message_sessions [of e sidO uidO msgO sys] assms(1) by auto
next
  case (ApiSessionDelete sidO)
  then show ?thesis using assms
    by (auto simp: api_session_delete_def split: option.splits)
next
  case (ApiQrGenerate sidO)
  then show ?thesis using assms(1)
    by (auto simp: api_qr_generate_def Let_def split: sum.splits option.splits)
qed (use assms(1) in \<open>simp_all add: identify_sessions api_qr_validate_sessions\<close>)

lemma step_status:
  assumes "sessions sys sid = Some s"
    and "sessions (snd (step hmac secret e req sys)) sid = Some s'"
  shows "s_status s' = s_status s
       \<or> (s_status s' = Transferred
           \<and> (\<exists>sock qrId sig kioskId. req = KioskScanQR sock qrId sig kioskId))"
proof (cases req)
  case (MobileMessage sock sidO uidO msgO)
  with assms(2) have "sessions (snd (mobile_message e sock sidO uidO msgO sys)) sid = Some s'"
    by simp
  then have "s_status s' = s_status s" by (rule mobile_message_status [OF assms(1)])
  then show ?thesis by simp
next
  case (MobileGenerateQR sidO)
  with assms(2) have "sessions (snd (mobile_generateQR hmac secret e sidO sys)) sid = Some s'"
    by simp
  then have "s_status s' = s_status s" by (rule mobile_generateQR_status [OF assms(1)])
  then show ?thesis by simp
next
  case (MobileIdentify sock uid)
  with assms show ?thesis by (simp add: identify_sessions)
next
  case (MobileDisconnect keys sock)
  with assms show ?thesis by (simp add: identify_sessions)
next
  case (KioskIdentify sock kid)
  with assms show ?thesis by (simp add: identify_sessions)
next
  case (KioskScanQR sock qrId sig kioskId)
  with assms(2) have
    "sessions (snd (kiosk_scanQR hmac secret e sock qrId sig kioskId sys)) sid = Some s'"
    by simp
  then have "s_status s' = s_status s \<or> s_status s' = Transferred"
    by (rule kiosk_scanQR_status [OF assms(1)])
  then show ?thesis using KioskScanQR by blast
next
  case (KioskRequestAssociate sidO pidO)
  with assms show ?thesis by (simp add: identify_sessions)
next
  case (KioskDisconnect keys sock)
  with assms show ?thesis by (simp add: identify_sessions)
next
  case (ApiChatMessage sidO uidO msgO)
  with assms(2) have "sessions (snd (api_chat_message e sidO uidO msgO sys)) sid = Some s'"
    by simp
  then have "s_status s' = s_status s" by (rule api_chat_message_status [OF assms(1)])
  then show ?thesis by simp
next
  case (ApiSessionGet sidO)
  with assms show ?thesis by (simp add: identify_sessions)
next
  case (ApiSessionDelete sidO)
  with assms(2) have "sessions (snd (api_session_delete e sidO sys)) sid = Some s'"
    by simp
  then have "s' = s" by (rule api_session_delete_status [OF assms(1)])
  then show ?thesis by simp
next
  case (ApiQrGenerate sidO)
  with assms(2) have "sessions (snd (api_qr_generate hmac secret e sidO sys)) sid = Some s'"
    by simp
  then have "s_status s' = s_status s" by (rule api_qr_generate_status [OF assms(1)])
  then show ?thesis by simp
next
  case (ApiQrValidate qrId sig)
  with assms show ?thesis by (simp add: api_qr_validate_sessions)
next
  case (ApiQrExpire qrId)
  with assms show ?thesis by (simp add: identify_sessions)
qed

lemma step_keeps_transferred:
  assumes "sessions sys sid = Some s" and "s_status s = Transferred"
    and "sessions (snd (step hmac secret e req sys)) sid = Some s'"
  shows "s_status s' = Transferred"
  using step_status [OF assms(1,3)] assms(2) by auto

lemma message_writes:
  assumes "message_request req" and "sessions sys sid = Some s"
    and "sessions (snd (step hmac secret e req sys)) sid = Some s'"
  shows "\<exists>h i t. s' = s\<lparr>s_conversationHistory := h, s_parsedIntent := i, s_tags := t\<rparr>"
proof (cases req)
  case (MobileMessage sock sidO uidO msgO)
  with assms(3) have "sessions (snd (mobile_message e sock sidO uidO msgO sys)) sid = Some s'"
    by simp
  then show ?thesis by (rule mobile_message_writes [OF assms(2)])
next
  case (ApiChatMessage sidO uidO msgO)
  with assms(3) have "sessions (snd (api_chat_message e sidO uidO msgO sys)) sid = Some s'"
    by simp
  then show ?thesis by (rule api_chat_message_writes [OF assms(2)])
qed (use assms(1) in simp_all)

lemma run_keeps_transferred:
  assumes "sessions sys sid = Some s" and "s_status s = Transferred"
    and "\<forall>r \<in> set rs. snd r \<noteq> ApiSessionDelete sid"
  shows "\<exists>s'. sessions (run hmac secret rs sys) sid = Some s' \<and> s_status s' = Transferred"
  using assms
proof (induction rs arbitrary: sys s)
  case Nil
  then show ?case by simp
next
  case (Cons r rs)
  obtain e req where r: "r = (e, req)" by (cases r)
  have nd: "req \<noteq> ApiSessionDelete sid" using Cons.prems(3) r by simp
  obtain s1 where s1: "sessions (snd (step hmac secret e req sys)) sid = Some s1"
    using step_keeps_session [OF Cons.prems(1) nd] by blast
  have t1: "s_status s1 = Transferred"
    by (rule step_keeps_transferred [OF Cons.prems(1,2) s1])
  have rest: "\<forall>r \<in> set rs. snd r \<noteq> ApiSessionDelete sid" using Cons.prems(3) by simp
  show ?case using Cons.IH [OF s1 t1 rest] r by simp
qed

subsection \<open>Evaluating the wedding scenario\<close>

lemma wedding_lower: "toLowerCase wedding_message = wedding_message"
  by code_simp

lemma wedding_extract_once:
  "extractOccasion wedding_message None = ''wedding''"
  "extractStyle wedding_message None = ''casual''"
  "extractSeason wedding_message None = ''summer''"
  "extractBudget wedding_message None = Num 200"
  "extractUrgency wedding_message None = ''flexible''"
  "extractPreferences wedding_message None = []"
  "extractPreferences wedding_message (Some []) = []"
  by code_simp+

lemma wedding_extract_twice:
  "extractOccasion wedding_twice (Some ''wedding'') = ''wedding''"
  "extractStyle wedding_twice (Some ''casual'') = ''casual''"
  "extractSeason wedding_twice (Some ''summer'') = ''summer''"
  "extractBudget wedding_twice (Some (Num 200)) = Num 200"
  "extractUrgency wedding_twice (Some ''flexible'') = ''flexible''"
  "extractPreferences wedding_twice (Some []) = []"
  by code_simp+

lemma wedding_tags:
  "generateTags wedding_intent = [''#Wedding'', ''#Wedding'', ''#Casual'', ''#SummerWear'']"
  by code_simp

lemma wedding_summary:
  "generateSummary wedding_intent =
     ''Looking for wedding, casual style, suitable for summer, within $200 budget''"
  by code_simp

lemma wedding_context:
  "extractPreviousContext [\<lparr>m_text = wedding_message, m_sender = ''user'', m_timestamp = t\<rparr>]
     = \<lparr>c_text = wedding_message, c_occasion = Some ''wedding'', c_style = Some ''casual'',
        c_season = Some ''summer'', c_budget = Some (Num 200), c_urgency = Some ''flexible'',
        c_preferences = []\<rparr>"
proof -
  have u: "toLowerCase ''user'' = ''user''" by code_simp
  have f: "\<not> falsy wedding_message" by (simp add: falsy_def wedding_message_def)
  have l: "wedding_message \<noteq> []" by (simp add: wedding_message_def)
  show ?thesis
    by (simp add: extractPreviousContext_def Let_def u wedding_lower f l wedding_extract_once)
qed


lemma wedding_parse_first:
  "parseUserMessage wedding_message
     [\<lparr>m_text = wedding_message, m_sender = ''user'', m_timestamp = t\<rparr>] =
     \<lparr>pa_intent = wedding_intent,
      pa_tags = [''#Wedding'', ''#Wedding'', ''#Casual'', ''#SummerWear''],
      pa_summary =
        ''Looking for wedding, casual style, suitable for summer, within $200 budget''\<rparr>"
proof -
  have f: "\<not> falsy wedding_message" by (simp add: falsy_def wedding_message_def)
  have t: "wedding_message @ CHR '' '' # wedding_message = wedding_twice"
    by (simp add: wedding_message_def wedding_twice_def)
  show ?thesis
    by (simp add: parseUserMessage_def Let_def wedding_context wedding_lower f t
        wedding_extract_twice wedding_intent_def [symmetric] wedding_tags wedding_summary)
qed

subsection \<open>The fields the message path leaves alone\<close>




lemma apply_message_wedding:
  assumes "s_conversationHistory (fetch_or_create sys sid uid) = []"
  shows "fst (apply_message e sid uid wedding_message sys) =
           \<lparr>pa_intent = wedding_intent,
            pa_tags = [''#Wedding'', ''#Wedding'', ''#Casual'', ''#SummerWear''],
            pa_summary =
              ''Looking for wedding, casual style, suitable for summer, within $200 budget''\<rparr>"
    and "s_tags (snd (apply_message e sid uid wedding_message sys))
           = merge_tags (tags_before sys sid)
               [''#Wedding'', ''#Wedding'', ''#Casual'', ''#SummerWear'']"
  using assms
  by (simp_all add: apply_message_def Let_def wedding_parse_first tags_fetch_or_create)

lemma wedding_budget_valid: "budget_valid wedding_intent"
  by (simp add: budget_valid_def wedding_intent_def)

lemma mobile_message_wedding:
  assumes "\<not> falsy sid" "\<not> falsy uid" "io_find_ok e" "io_save_ok e"
    and "s_conversationHistory (fetch_or_create sys sid uid) = []"
  shows "sessions (snd (mobile_message e sock (Some sid) (Some uid) (Some wedding_message) sys))
           = (sessions sys)(sid \<mapsto> snd (apply_message e sid uid wedding_message sys))"
proof -
  have w: "\<not> falsy wedding_message" by (simp add: falsy_def wedding_message_def)
  have b: "budget_valid (pa_intent (fst (apply_message e sid uid wedding_message sys)))"
    by (simp add: apply_message_wedding(1) [OF assms(5)] wedding_budget_valid)
  show ?thesis by (rule mobile_message_ok [OF assms(1,2) w assms(3,4) b])
qed

subsection \<open>A second message\<close>











subsection \<open>Status monotonicity\<close>

lemma demo_signature_decoded:
  "buffer_from_hex demo_signature = toy_mac (secret_key demo_secret)
      \<lparr>p_qrId = demo_uuid, p_sessionId = ''S1'', p_timestamp = demo_issued\<rparr>"
  using buffer_from_hex_encode [of "toy_mac ''top-secret''
      \<lparr>p_qrId = demo_uuid, p_sessionId = ''S1'', p_timestamp = demo_issued\<rparr>"]
  by (simp add: demo_digest demo_secret_def)

lemma demo_validate:
  "validateQR toy_mac demo_secret (demo_issued + 1000) demo_store demo_uuid demo_signature
     = (Some ''S1'', redis_del demo_store (QR_KEY_PREFIX @ demo_uuid))"
proof -
  have f: "\<not> falsy demo_signature" by (simp add: falsy_def demo_signature_def)
  have l: "length demo_signature = 2 * length (toy_mac (secret_key demo_secret)
      \<lparr>p_qrId = demo_uuid, p_sessionId = ''S1'', p_timestamp = demo_issued\<rparr>)"
    by (simp add: demo_mac_length demo_signature_def)
  show ?thesis
    by (rule validateQR_accepts [where hmac = toy_mac, OF demo_truthy(1) f demo_truthy(2)
          demo_live l demo_signature_decoded])
qed

lemma demo_handoff_reached:
  "snd (step toy_mac demo_secret demo_io (MobileGenerateQR (Some ''S1'')) demo_system)
     = demo_handoff"
proof -
  have g: "generateQR toy_mac demo_secret (io_uuid demo_io) (io_now demo_io)
             (qr_redis demo_system) ''S1'' = Inr (demo_result, demo_store)"
    using demo_generate by (simp add: demo_io_def demo_system_def)
  have s: "sessions demo_system ''S1'' = Some demo_session" by (simp add: demo_system_def)
  have d: "io_find_ok demo_io" "io_save_ok demo_io" by (simp_all add: demo_io_def)
  show ?thesis
    using g s d
    by (simp add: mobile_generateQR_def Let_def falsy_opt_def falsy_def str_of_def
        demo_handoff_def demo_result_def)
qed

text \<open>
  Claim C5. The status of a session never goes from \<open>transferred\<close> back to
  \<open>active\<close>. For every request and every environment, an existing session that is
  still there after the request has the status it had, or has the status
  \<open>transferred\<close> and the request was a kiosk scan; so a transferred session stays
  transferred, and does so over every run of requests that does not delete it. The kiosk
  scan sets the status: when the token validates to the id of an existing session and
  the database calls succeed, the session is stored with the status \<open>transferred\<close>
  and is otherwise as it was. The message path writes the history, the intent and the tags
  of an existing session and nothing else.
\<close>

theorem status_never_reverts:
  "(sessions sys sid = Some s \<and> sessions (snd (step hmac secret e req sys)) sid = Some s' \<longrightarrow>
      s_status s' = s_status s
      \<or> (s_status s' = Transferred
          \<and> (\<exists>sock qrId sig kioskId. req = KioskScanQR sock qrId sig kioskId)))
   \<and> (sessions sys sid = Some s \<and> s_status s = Transferred
        \<and> (\<forall>r \<in> set rs. snd r \<noteq> ApiSessionDelete sid) \<longrightarrow>
      (\<exists>s''. sessions (run hmac secret rs sys) sid = Some s'' \<and> s_status s'' = Transferred))
   \<and> (validateQR hmac secret (io_now e) (qr_redis sys) qrId sig = (Some sid, store')
        \<and> \<not> falsy sid \<and> io_find_ok e \<and> io_save_ok e \<and> sessions sys sid = Some s \<longrightarrow>
      sessions (snd (step hmac secret e (KioskScanQR sock (Some qrId) (Some sig) kioskId) sys))
        = (sessions sys)(sid \<mapsto> s\<lparr>s_status := Transferred\<rparr>))
   \<and> (message_request req \<and> sessions sys sid = Some s
        \<and> sessions (snd (step hmac secret e req sys)) sid = Some s' \<longrightarrow>
      (\<exists>h i t. s' = s\<lparr>s_conversationHistory := h, s_parsedIntent := i, s_tags := t\<rparr>))"
proof -
  have one: "sessions sys sid = Some s
      \<and> sessions (snd (step hmac secret e req sys)) sid = Some s' \<longrightarrow>
      s_status s' = s_status s
      \<or> (s_status s' = Transferred
          \<and> (\<exists>sock qrId sig kioskId. req = KioskScanQR sock qrId sig kioskId))"
    using step_status [of sys sid s hmac secret e req s'] by blast
  have many: "sessions sys sid = Some s \<and> s_status s = Transferred
        \<and> (\<forall>r \<in> set rs. snd r \<noteq> ApiSessionDelete sid) \<longrightarrow>
      (\<exists>s''. sessions (run hmac secret rs sys) sid = Some s'' \<and> s_status s'' = Transferred)"
    using run_keeps_transferred [of sys sid s rs hmac secret] by blast
  have scan: "validateQR hmac secret (io_now e) (qr_redis sys) qrId sig = (Some sid, store')
        \<and> \<not> falsy sid \<and> io_find_ok e \<and> io_save_ok e \<and> sessions sys sid = Some s \<longrightarrow>
      sessions (snd (step hmac secret e (KioskScanQR sock (Some qrId) (Some sig) kioskId) sys))
        = (sessions sys)(sid \<mapsto> s\<lparr>s_status := Transferred\<rparr>)"
    using kiosk_scanQR_transfers(1) [of hmac secret e sys qrId sig sid store' s sock kioskId]
    by simp
  have writes: "message_request req \<and> sessions sys sid = Some s
        \<and> sessions (snd (step hmac secret e req sys)) sid = Some s' \<longrightarrow>
      (\<exists>h i t. s' = s\<lparr>s_conversationHistory := h, s_parsedIntent := i, s_tags := t\<rparr>)"
    using message_writes [of req sys sid s hmac secret e s'] by blast
  show ?thesis
    by (rule conjI [OF one conjI [OF many conjI [OF scan writes]]])
qed

text \<open>
  The handoff of \<open>S1\<close>: the token is issued, the kiosk scans it one second later, and
  the message "wedding in summer, budget $200" arrives afterwards. The scan stores the
  session as transferred, and the message, which is stored, leaves it transferred.
\<close>

theorem status_never_reverts_witness:
  "snd (step toy_mac demo_secret demo_io (MobileGenerateQR (Some ''S1'')) demo_system)
     = demo_handoff
   \<and> s_status demo_session = Active
   \<and> sessions (snd (step toy_mac demo_secret demo_io_later
         (KioskScanQR ''kioskA'' (Some demo_uuid) (Some demo_signature) (Some ''k1''))
         demo_handoff))
       = (sessions demo_handoff)(''S1'' \<mapsto>
            demo_session\<lparr>s_qrCode := Some demo_uuid, s_qrExpiry := Some (demo_issued + 300000),
                          s_status := Transferred\<rparr>)
   \<and> (\<exists>s'. sessions (snd (step toy_mac demo_secret demo_io_later
           (MobileMessage ''handleA'' (Some ''S1'') (Some ''u1'') (Some wedding_message))
           (snd (step toy_mac demo_secret demo_io_later
              (KioskScanQR ''kioskA'' (Some demo_uuid) (Some demo_signature) (Some ''k1''))
              demo_handoff)))) ''S1'' = Some s'
         \<and> s_status s' = Transferred
         \<and> s_tags s' = [''#Wedding'', ''#Casual'', ''#SummerWear'']
         \<and> s_qrCode s' = Some demo_uuid)
   \<and> (\<exists>s''. sessions (run toy_mac demo_secret
           [(demo_io_later,
             MobileMessage ''handleA'' (Some ''S1'') (Some ''u1'') (Some wedding_message)),
            (demo_io_later, ApiSessionDelete ''S2'')]
           (snd (step toy_mac demo_secret demo_io_later
              (KioskScanQR ''kioskA'' (Some demo_uuid) (Some demo_signature) (Some ''k1''))
              demo_handoff))) ''S1'' = Some s''
         \<and> s_status s'' = Transferred)"
proof -
  let ?scan = "KioskScanQR ''kioskA'' (Some demo_uuid) (Some demo_signature) (Some ''k1'')"
  let ?msg = "MobileMessage ''handleA'' (Some ''S1'') (Some ''u1'') (Some wedding_message)"
  let ?st = "snd (step toy_mac demo_secret demo_io_later ?scan demo_handoff)"
  let ?s0 = "demo_session\<lparr>s_qrCode := Some demo_uuid,
                           s_qrExpiry := Some (demo_issued + 300000)\<rparr>"
  let ?s1 = "?s0\<lparr>s_status := Transferred\<rparr>"
  let ?s2 = "snd (apply_message demo_io_later ''S1'' ''u1'' wedding_message ?st)"
  note inst = status_never_reverts [where hmac = toy_mac and secret = demo_secret]
  have active: "s_status demo_session = Active"
    by (simp add: demo_session_def new_session_def)
  have v: "validateQR toy_mac demo_secret (io_now demo_io_later) (qr_redis demo_handoff)
             demo_uuid demo_signature
           = (Some ''S1'', redis_del demo_store (QR_KEY_PREFIX @ demo_uuid))"
    using demo_validate by (simp add: demo_io_later_def demo_handoff_def)
  have ok: "\<not> falsy ''S1''" "\<not> falsy ''u1''" "io_find_ok demo_io_later"
    "io_save_ok demo_io_later"
    by (simp_all add: falsy_def demo_io_later_def demo_io_def)
  have h0: "sessions demo_handoff ''S1'' = Some ?s0" by (simp add: demo_handoff_def)
  have scanned: "sessions ?st = (sessions demo_handoff)(''S1'' \<mapsto> ?s1)"
    using inst [of demo_handoff "''S1''" ?s0 demo_io_later _ _ _ demo_uuid demo_signature
        "redis_del demo_store (QR_KEY_PREFIX @ demo_uuid)" "''kioskA''" "Some ''k1''",
        THEN conjunct2, THEN conjunct2, THEN conjunct1] v ok h0
    by simp
  then have h1: "sessions ?st ''S1'' = Some ?s1" by simp
  have f: "fetch_or_create ?st ''S1'' ''u1'' = ?s1"
    using h1 by (simp add: fetch_or_create_def)
  have h: "s_conversationHistory (fetch_or_create ?st ''S1'' ''u1'') = []"
    unfolding f by (simp add: demo_session_def new_session_def)
  have t: "tags_before ?st ''S1'' = []"
    using h1 by (simp add: tags_before_def demo_session_def new_session_def)
  have stored: "sessions (snd (step toy_mac demo_secret demo_io_later ?msg ?st)) ''S1''
                  = Some ?s2"
    using mobile_message_wedding [OF ok h, of "''handleA''"] by simp
  have m: "merge_tags [] [''#Wedding'', ''#Wedding'', ''#Casual'', ''#SummerWear'']
             = [''#Wedding'', ''#Casual'', ''#SummerWear'']"
    by (simp add: merge_tags_def)
  have "s_tags ?s2 = merge_tags (tags_before ?st ''S1'')
                       [''#Wedding'', ''#Wedding'', ''#Casual'', ''#SummerWear'']"
    by (rule apply_message_wedding(2) [OF h])
  then have tags: "s_tags ?s2 = [''#Wedding'', ''#Casual'', ''#SummerWear'']"
    unfolding t m .
  have t1: "s_status ?s1 = Transferred" by simp
  have "s_status ?s2 = s_status ?s1
      \<or> (s_status ?s2 = Transferred
          \<and> (\<exists>sock qrId sig kioskId. ?msg = KioskScanQR sock qrId sig kioskId))"
    using inst [of ?st "''S1''" ?s1 demo_io_later ?msg ?s2, THEN conjunct1] h1 stored
    by blast
  then have status: "s_status ?s2 = Transferred" by simp
  have "\<exists>h i t. ?s2 = ?s1\<lparr>s_conversationHistory := h, s_parsedIntent := i, s_tags := t\<rparr>"
    using inst [of ?st "''S1''" ?s1 demo_io_later ?msg ?s2,
        THEN conjunct2, THEN conjunct2, THEN conjunct2] h1 stored
    by simp
  then obtain h' i' t' where
    "?s2 = ?s1\<lparr>s_conversationHistory := h', s_parsedIntent := i', s_tags := t'\<rparr>"
    by blast
  then have "s_qrCode ?s2
      = s_qrCode (?s1\<lparr>s_conversationHistory := h', s_parsedIntent := i', s_tags := t'\<rparr>)"
    by (rule arg_cong)
  then have code: "s_qrCode ?s2 = Some demo_uuid" by simp
  have nd: "\<forall>r \<in> set [(demo_io_later, ?msg), (demo_io_later, ApiSessionDelete ''S2'')].
              snd r \<noteq> ApiSessionDelete ''S1''"
    by simp
  have runs: "\<exists>s''. sessions (run toy_mac demo_secret
           [(demo_io_later, ?msg), (demo_io_later, ApiSessionDelete ''S2'')] ?st) ''S1''
             = Some s'' \<and> s_status s'' = Transferred"
    using inst [of ?st "''S1''" ?s1 _ _ _
        "[(demo_io_later, ?msg), (demo_io_later, ApiSessionDelete ''S2'')]",
        THEN conjunct2, THEN conjunct1] h1 t1 nd
    by blast
  from demo_handoff_reached active scanned stored status tags code runs
  show ?thesis by blast
qed

subsection \<open>Requesting a transfer\<close>

text \<open>
  Claim C6. When the session exists (and the session id is non-empty, the signing secret
  is configured and the database calls succeed), both forms of the transfer request, the
  \<open>mobile:generateQR\<close> event and \<open>POST /api/qr/generate\<close>, issue a token through
  \<open>generateQR\<close>, which stores it under the token id, reply with the token material
  (\<open>qrId\<close>, \<open>qrImage\<close>, \<open>expiresAt\<close>, \<open>signature\<close>), and write \<open>qrCode\<close> and
  \<open>qrExpiry\<close> onto the session; the status, every other field of the session, every
  other session and the rest of the state are unchanged.
\<close>

theorem request_transfer:
  assumes sess: "sessions sys sid = Some s"
    and sid: "\<not> falsy sid" and secret: "\<not> falsy_opt secret"
    and db: "io_find_ok e" "io_save_ok e"
  shows "\<exists>r store'.
       generateQR hmac secret (io_uuid e) (io_now e) (qr_redis sys) sid = Inr (r, store')
     \<and> store' (QR_KEY_PREFIX @ qr_qrId r) = Some (Json_entry sid (io_now e), qr_expiresAt r)
     \<and> mobile_generateQR hmac secret e (Some sid) sys
         = ([Mobile_qrGenerated (qr_qrId r) (qr_qrImage r) (qr_expiresAt r) (qr_signature r)],
            sys\<lparr>qr_redis := store',
                sessions := (sessions sys)(sid \<mapsto>
                   s\<lparr>s_qrCode := Some (qr_qrId r), s_qrExpiry := Some (qr_expiresAt r)\<rparr>)\<rparr>)
     \<and> api_qr_generate hmac secret e (Some sid) sys
         = ([Http_qr (qr_qrId r) (qr_qrImage r) (qr_expiresAt r) (qr_signature r)],
            sys\<lparr>qr_redis := store',
                sessions := (sessions sys)(sid \<mapsto>
                   s\<lparr>s_qrCode := Some (qr_qrId r), s_qrExpiry := Some (qr_expiresAt r)\<rparr>)\<rparr>)"
proof -
  obtain r store' where
    gen: "generateQR hmac secret (io_uuid e) (io_now e) (qr_redis sys) sid = Inr (r, store')"
    using sid secret by (simp add: generateQR_def Let_def)
  note g = generateQR_Inr [OF gen]
  have st: "store' (QR_KEY_PREFIX @ qr_qrId r) = Some (Json_entry sid (io_now e), qr_expiresAt r)"
    by (simp add: g(3,5,7))
  have m: "mobile_generateQR hmac secret e (Some sid) sys
         = ([Mobile_qrGenerated (qr_qrId r) (qr_qrImage r) (qr_expiresAt r) (qr_signature r)],
            sys\<lparr>qr_redis := store',
                sessions := (sessions sys)(sid \<mapsto>
                   s\<lparr>s_qrCode := Some (qr_qrId r), s_qrExpiry := Some (qr_expiresAt r)\<rparr>)\<rparr>)"
    using sess sid db gen
    by (simp add: mobile_generateQR_def Let_def falsy_opt_def str_of_def)
  have a: "api_qr_generate hmac secret e (Some sid) sys
         = ([Http_qr (qr_qrId r) (qr_qrImage r) (qr_expiresAt r) (qr_signature r)],
            sys\<lparr>qr_redis := store',
                sessions := (sessions sys)(sid \<mapsto>
                   s\<lparr>s_qrCode := Some (qr_qrId r), s_qrExpiry := Some (qr_expiresAt r)\<rparr>)\<rparr>)"
    using sess sid db gen
    by (simp add: api_qr_generate_def Let_def falsy_opt_def str_of_def)
  from gen st m a show ?thesis by blast
qed

theorem request_transfer_witness:
  "sessions demo_system ''S1'' = Some demo_session
   \<and> \<not> falsy ''S1'' \<and> \<not> falsy_opt demo_secret \<and> io_find_ok demo_io \<and> io_save_ok demo_io
   \<and> mobile_generateQR toy_mac demo_secret demo_io (Some ''S1'') demo_system
       = ([Mobile_qrGenerated demo_uuid (qr_qrImage demo_result) (demo_issued + 300000)
             demo_signature],
          demo_system\<lparr>qr_redis := demo_store,
              sessions := (sessions demo_system)(''S1'' \<mapsto>
                 demo_session\<lparr>s_qrCode := Some demo_uuid,
                               s_qrExpiry := Some (demo_issued + 300000)\<rparr>)\<rparr>)"
proof -
  have h1: "sessions demo_system ''S1'' = Some demo_session"
    by (simp add: demo_system_def)
  have h2: "\<not> falsy ''S1''" by (simp add: falsy_def)
  have h3: "\<not> falsy_opt demo_secret" by (simp add: falsy_opt_def falsy_def demo_secret_def)
  have h4: "io_find_ok demo_io" "io_save_ok demo_io" by (simp_all add: demo_io_def)
  have g: "generateQR toy_mac demo_secret (io_uuid demo_io) (io_now demo_io)
             (qr_redis demo_system) ''S1'' = Inr (demo_result, demo_store)"
    using demo_generate by (simp add: demo_io_def demo_system_def)
  show ?thesis
    using request_transfer [OF h1 h2 h3 h4, of toy_mac] g h1 h2 h3 h4
    by (auto simp: demo_result_def)
qed

subsection \<open>The registry keeps the last registration\<close>



subsection \<open>Tags only grow\<close>




section \<open>Properties of the message path\<close>

subsection \<open>The wedding scenario\<close>



section \<open>Properties of the recommender\<close>

lemma length_slice0: "0 \<le> n \<Longrightarrow> int (length (slice0 xs n)) \<le> n"
  by (simp add: slice0_def)

lemma set_slice0: "set (slice0 xs n) \<subseteq> set xs"
  by (auto simp: slice0_def dest: in_set_takeD)

lemma set_insert_scored: "set (insert_scored x xs) = insert x (set xs)"
  by (induction xs) auto

lemma set_sort_scored: "set (sort_scored xs) = set xs"
  by (induction xs) (auto simp: set_insert_scored)

lemma diversity_loop_scores:
  assumes "\<forall>p \<in> set result. 20 \<le> pr_score p" "\<forall>p \<in> set products. 20 \<le> pr_score p"
  shows "\<forall>p \<in> set (diversity_loop selected result limit products). 20 \<le> pr_score p"
  using assms
proof (induction products arbitrary: selected result)
  case Nil
  then show ?case by simp
next
  case (Cons product products)
  have r1: "\<forall>p \<in> set (result @ [product\<lparr>pr_score := pr_score product + 10\<rparr>]).
              20 \<le> pr_score p"
    using Cons.prems by auto
  have r2: "\<forall>p \<in> set (result @ [product]). 20 \<le> pr_score p"
    using Cons.prems by auto
  have ps: "\<forall>p \<in> set products. 20 \<le> pr_score p"
    using Cons.prems by simp
  show ?case
    using Cons.IH [OF r1 ps] Cons.IH [OF r2 ps] by (simp add: Let_def)
qed

lemma applyCategoryDiversity_scores:
  assumes "\<forall>p \<in> set products. 20 \<le> pr_score p"
  shows "\<forall>p \<in> set (applyCategoryDiversity products limit). 20 \<le> pr_score p"
proof -
  have "\<forall>p \<in> set (diversity_loop [] [] limit products). 20 \<le> pr_score p"
    by (rule diversity_loop_scores) (use assms in simp_all)
  then show ?thesis
    using set_slice0 [of "sort_scored (diversity_loop [] [] limit products)" limit]
    by (auto simp: applyCategoryDiversity_def set_sort_scored)
qed

lemma sum_scores_nonneg:
  "\<forall>p \<in> set ps. 20 \<le> pr_score p \<Longrightarrow> 0 \<le> sum_list (map pr_score ps)"
  by (induction ps) auto

lemma recommend_try_Inr:
  assumes "recommend_try parsedIntent limit found = Inr r"
  shows "length (r_explanations r) = length (r_products r)"
    and "0 \<le> limit \<Longrightarrow> int (length (r_products r)) \<le> limit"
    and "0 \<le> r_confidence r" and "r_confidence r \<le> 1"
    and "found = Inr [] \<Longrightarrow> r = no_recommendations"
proof -
  obtain products where f: "found = Inr products"
    using assms by (cases found) (simp_all add: recommend_try_def Let_def)
  show "found = Inr [] \<Longrightarrow> r = no_recommendations"
    using assms by (simp add: recommend_try_def Let_def)
  show "length (r_explanations r) = length (r_products r)"
    using assms f by (cases "products = []") (auto simp: recommend_try_def Let_def no_recommendations_def)
  show "0 \<le> limit \<Longrightarrow> int (length (r_products r)) \<le> limit"
    using assms f length_slice0
    by (cases "products = []") (auto simp: recommend_try_def Let_def no_recommendations_def)
  show "r_confidence r \<le> 1"
    using assms f by (cases "products = []") (auto simp: recommend_try_def Let_def no_recommendations_def)
  show "0 \<le> r_confidence r"
  proof (cases "products = []")
    case True
    then show ?thesis using assms f by (auto simp: recommend_try_def no_recommendations_def)
  next
    case False
    define intentTags where "intentTags =
            (case i_tags parsedIntent of
               Some tags \<Rightarrow> map strip_hash tags
             | None \<Rightarrow> generateTagsFromIntent parsedIntent)"
    define filtered0 where "filtered0 =
       sort_scored (filter (\<lambda>p. pr_score p \<ge> 20) (score_all products parsedIntent intentTags False))"
    define filtered where "filtered =
       (if length filtered0 < 3
                         \<and> (case i_budget parsedIntent of Some (Num b) \<Rightarrow> True | _ \<Rightarrow> False)
                      then sort_scored (filter (\<lambda>p. pr_score p \<ge> 20)
                             (score_all products parsedIntent intentTags True))
                      else filtered0)"
    define top where "top = slice0 (applyCategoryDiversity filtered limit) limit"
    have "\<forall>p \<in> set filtered. 20 \<le> pr_score p"
      by (auto simp: filtered_def filtered0_def set_sort_scored)
    then have "\<forall>p \<in> set (applyCategoryDiversity filtered limit). 20 \<le> pr_score p"
      by (rule applyCategoryDiversity_scores)
    then have t: "\<forall>p \<in> set top. 20 \<le> pr_score p"
      using set_slice0 [of "applyCategoryDiversity filtered limit" limit]
      by (auto simp: top_def)
    have c: "r_confidence r = min 1 ((if length top > 0
                      then of_int (sum_list (map pr_score top)) / of_nat (length top)
                      else (0 :: rat)) / 100)"
      using assms f False
      by (auto simp: recommend_try_def Let_def top_def filtered_def filtered0_def intentTags_def)
    have "(0 :: rat) \<le> of_int (sum_list (map pr_score top)) / of_nat (length top)"
      using sum_scores_nonneg [OF t] by simp
    then show ?thesis by (simp add: c)
  qed
qed

subsection \<open>The recommender never fails its caller\<close>

text \<open>
  Claim C8 as stated fails for a negative limit: \<open>slice(0, limit)\<close> then counts from the
  end of the array, so with limit \<open>-1\<close> and three products in stock one product is
  returned, which is more than the limit.
\<close>

theorem recommendations_limit_counterexample:
  "length (r_products (getRecommendations (Intent empty_intent) (- 1) (Inr demo_catalog))) = 1
   \<and> \<not> int (length (r_products
          (getRecommendations (Intent empty_intent) (- 1) (Inr demo_catalog)))) \<le> - 1"
proof -
  have "length (r_products
      (getRecommendations (Intent empty_intent) (- 1) (Inr demo_catalog))) = 1"
    by code_simp
  then show ?thesis by simp
qed

text \<open>
  Claim C8, amended. For every intent and every limit, \<open>getRecommendations\<close> returns a
  result and never raises: the result has one explanation per returned product and a
  confidence between 0 and 1; for every limit that is not negative it has at most
  \<open>limit\<close> products; and on an intent that is not an object, an empty set of products
  in stock, or a failure of the product query, it is
  \<open>{products: [], explanations: [], confidence: 0}\<close>.
\<close>

theorem recommendations_total:
  "(0 \<le> limit \<longrightarrow>
      int (length (r_products (getRecommendations parsedIntent limit found))) \<le> limit)
   \<and> length (r_explanations (getRecommendations parsedIntent limit found))
       = length (r_products (getRecommendations parsedIntent limit found))
   \<and> 0 \<le> r_confidence (getRecommendations parsedIntent limit found)
   \<and> r_confidence (getRecommendations parsedIntent limit found) \<le> 1
   \<and> (parsedIntent = Not_an_object \<or> found = Inr [] \<or> isl found \<longrightarrow>
        getRecommendations parsedIntent limit found = no_recommendations)"
proof (cases parsedIntent)
  case Not_an_object
  then show ?thesis by (simp add: getRecommendations_def no_recommendations_def)
next
  case (Intent i)
  show ?thesis
  proof (cases "recommend_try i limit found")
    case (Inl err)
    then show ?thesis using Intent by (simp add: getRecommendations_def no_recommendations_def)
  next
    case (Inr r)
    have g: "getRecommendations (Intent i) limit found = r"
      using Inr by (simp add: getRecommendations_def)
    have nl: "\<not> isl found"
      using Inr by (cases found) (simp_all add: recommend_try_def Let_def)
    note b = recommend_try_Inr [OF Inr]
    have "parsedIntent = Not_an_object \<or> found = Inr [] \<or> isl found \<longrightarrow>
        r = no_recommendations"
      using Intent nl b(5) by simp
    then show ?thesis
      unfolding Intent g using b(1-4) by simp
  qed
qed

theorem recommendations_total_witness:
  "(0 :: int) \<le> 3
   \<and> int (length (r_products (getRecommendations (Intent empty_intent) 3 (Inr [])))) \<le> 3
   \<and> getRecommendations (Intent empty_intent) 3 (Inr []) = no_recommendations"
  using recommendations_total [of 3 "Intent empty_intent" "Inr []"]
  by (simp add: no_recommendations_def)

end
